theory Spec2Isabelle
  imports Complex_Main "HOL-Library.AList" "HOL-Library.Sublist"
begin

section \<open>Python values, responses and exceptions\<close>

text \<open>
  The values that travel through the toolkit as untyped Python objects: the per-model
  configuration dictionaries of the providers, the decoded JSON body of an HTTP response and
  the rows of a dataset. A \<open>dict\<close> keeps insertion order, so it is an association list.
\<close>

datatype pyval =
    PyNone
  | PyBool bool
  | PyInt int
  | PyFloat real
  | PyStr string
  | PyList "pyval list"
  | PyDict "(string \<times> pyval) list"

text \<open>
  An \<open>httpx.Response\<close> as the code reads it: \<open>status_code\<close>, \<open>text\<close> (here
  \<open>response_text\<close>) and the outcome of \<open>json()\<close> (here \<open>response_json\<close>): the decoded
  value, or the text of the \<open>json.JSONDecodeError\<close>, a \<open>ValueError\<close>, that decoding the
  body raises. \<open>status_error\<close> is the text httpx composes for the \<open>HTTPStatusError\<close> of
  the response (status line and URL).
\<close>

record http_response =
  status_code :: int
  response_text :: string
  response_json :: "string + pyval"
  status_error :: string

text \<open>
  Exceptions are values. An \<open>OSError\<close> carries its error number and the file name the
  failing call was given; Python raises the subclass that belongs to the number
  (\<open>FileNotFoundError\<close> for \<open>ENOENT\<close>, and so on; \<open>ENAMETOOLONG\<close> has no subclass).
  \<open>HTTPStatusError\<close> carries the response, as \<open>httpx.HTTPStatusError\<close> does. Every other
  constructor carries what \<open>str(e)\<close> prints. \<open>ImportError\<close> stands for the class and its
  subclass \<open>ModuleNotFoundError\<close>.
\<close>

datatype errno = ENOENT | EEXIST | ENOTDIR | EISDIR | ENAMETOOLONG

datatype exn =
    ValueError string
  | ImportError string
  | AttributeError string
  | KeyError string
  | IndexError string
  | TypeError string
  | OSError errno string
  | HTTPStatusError http_response
  | OtherException string

abbreviation FileNotFoundError :: "string \<Rightarrow> exn" where
  "FileNotFoundError filename \<equiv> OSError ENOENT filename"

abbreviation FileExistsError :: "string \<Rightarrow> exn" where
  "FileExistsError filename \<equiv> OSError EEXIST filename"

abbreviation NotADirectoryError :: "string \<Rightarrow> exn" where
  "NotADirectoryError filename \<equiv> OSError ENOTDIR filename"

abbreviation IsADirectoryError :: "string \<Rightarrow> exn" where
  "IsADirectoryError filename \<equiv> OSError EISDIR filename"

fun is_OSError :: "exn \<Rightarrow> bool" where
  "is_OSError (OSError en filename) = True"
| "is_OSError e = False"

fun is_FileExistsError :: "exn \<Rightarrow> bool" where
  "is_FileExistsError (OSError en filename) = (en = EEXIST)"
| "is_FileExistsError e = False"

fun strerror :: "errno \<Rightarrow> string" where
  "strerror ENOENT = ''[Errno 2] No such file or directory''"
| "strerror EEXIST = ''[Errno 17] File exists''"
| "strerror ENOTDIR = ''[Errno 20] Not a directory''"
| "strerror EISDIR = ''[Errno 21] Is a directory''"
| "strerror ENAMETOOLONG = ''[Errno 36] File name too long''"

text \<open>
  \<open>str(e)\<close>. The text of an \<open>OSError\<close> ends in \<open>repr(filename)\<close>; the interpreter's
  \<open>repr\<close> is the parameter \<open>py_repr\<close> of this and the following functions.
\<close>

fun exn_str :: "(pyval \<Rightarrow> string) \<Rightarrow> exn \<Rightarrow> string" where
  "exn_str py_repr (ValueError m) = m"
| "exn_str py_repr (ImportError m) = m"
| "exn_str py_repr (AttributeError m) = m"
| "exn_str py_repr (KeyError m) = m"
| "exn_str py_repr (IndexError m) = m"
| "exn_str py_repr (TypeError m) = m"
| "exn_str py_repr (OSError en filename) = strerror en @ '': '' @ py_repr (PyStr filename)"
| "exn_str py_repr (HTTPStatusError r) = status_error r"
| "exn_str py_repr (OtherException m) = m"

section \<open>Text helpers\<close>

text \<open>Text in single quotes inside a message, as in \<open>f"Feature '{feature_name}' ..."\<close>.\<close>

definition quoted :: "string \<Rightarrow> string" where
  "quoted s = CHR 0x27 # s @ [CHR 0x27]"

text \<open>Sequencing of steps that may raise: the first exception ends the sequence.\<close>

definition and_then :: "exn + 'a \<Rightarrow> ('a \<Rightarrow> exn + 'b) \<Rightarrow> exn + 'b" where
  "and_then r f = (case r of Inl e \<Rightarrow> Inl e | Inr x \<Rightarrow> f x)"

text \<open>\<open>str(i)\<close> for a Python integer, and \<open>sep.join(parts)\<close>.\<close>

fun nat_digits :: "nat \<Rightarrow> string" where
  "nat_digits n =
     (if n < 10 then [char_of (48 + n)]
      else nat_digits (n div 10) @ [char_of (48 + n mod 10)])"

declare nat_digits.simps [simp del]

definition str_int :: "int \<Rightarrow> string" where
  "str_int i = (if i < 0 then CHR ''-'' # nat_digits (nat (- i)) else nat_digits (nat i))"

fun join :: "string \<Rightarrow> string list \<Rightarrow> string" where
  "join sep [] = []"
| "join sep [x] = x"
| "join sep (x # y # ys) = x @ sep @ join sep (y # ys)"

text \<open>
  \<open>str(v)\<close> on an arbitrary value, as an f-string applies it. On a \<open>str\<close> it is the
  identity; on the other values here (\<open>None\<close>, numbers, lists, dictionaries) it is
  \<open>repr(v)\<close>.
\<close>

definition format_value :: "(pyval \<Rightarrow> string) \<Rightarrow> pyval \<Rightarrow> string" where
  "format_value py_repr v = (case v of PyStr s \<Rightarrow> s | _ \<Rightarrow> py_repr v)"

fun type_name :: "pyval \<Rightarrow> string" where
  "type_name PyNone = ''NoneType''"
| "type_name (PyBool b) = ''bool''"
| "type_name (PyInt i) = ''int''"
| "type_name (PyFloat x) = ''float''"
| "type_name (PyStr s) = ''str''"
| "type_name (PyList xs) = ''list''"
| "type_name (PyDict d) = ''dict''"

text \<open>
  \<open>obj.get(key, default)\<close>: a dictionary lookup with default when \<open>obj\<close> is a \<open>dict\<close>,
  an \<open>AttributeError\<close> when it is any other value.
\<close>

fun py_get :: "pyval \<Rightarrow> string \<Rightarrow> pyval \<Rightarrow> exn + pyval" where
  "py_get (PyDict d) key dflt = Inr (case map_of d key of None \<Rightarrow> dflt | Some v \<Rightarrow> v)"
| "py_get obj key dflt =
     Inl (AttributeError (quoted (type_name obj) @ '' object has no attribute '' @ quoted ''get''))"

section \<open>Providers (providers/groq.py, providers/ollama.py, providers/openrouter.py)\<close>

text \<open>The execution environment read by \<open>os.getenv\<close>: unset variables are \<open>None\<close>.\<close>

type_synonym environ = "string \<rightharpoonup> string"

definition getenv :: "environ \<Rightarrow> string \<Rightarrow> string option" where
  "getenv env key = env key"

text \<open>
  A provider instance holds only what its constructor stores: the key (for the two hosted
  providers) and the base URL. The key of \<open>OpenRouterProvider\<close> is whatever \<open>os.getenv\<close>
  returned, so it is optional.
\<close>

datatype provider =
    GroqProvider string string
  | OllamaProvider string
  | OpenRouterProvider "string option" string

definition GroqProvider_init :: "environ \<Rightarrow> exn + provider" where
  "GroqProvider_init env =
     (case getenv env ''GROQ_API_KEY'' of
        None \<Rightarrow> Inl (ValueError ''GROQ_API_KEY environment variable is not set'')
      | Some api_key \<Rightarrow>
          if api_key = [] then Inl (ValueError ''GROQ_API_KEY environment variable is not set'')
          else Inr (GroqProvider api_key ''https://api.groq.com/openai/v1''))"

definition OllamaProvider_init :: "environ \<Rightarrow> exn + provider" where
  "OllamaProvider_init env = Inr (OllamaProvider ''http://localhost:11434'')"

definition OpenRouterProvider_init :: "environ \<Rightarrow> exn + provider" where
  "OpenRouterProvider_init env =
     Inr (OpenRouterProvider (getenv env ''OPENROUTER_API_KEY'') ''https://openrouter.ai/api/v1'')"

fun available_models :: "provider \<Rightarrow> string list" where
  "available_models (GroqProvider k u) =
     [''llama-3.1-70b-versatile'', ''llama-3.1-8b-instant'', ''mixtral-8x7b-32768'', ''gemma-7b-it'']"
| "available_models (OllamaProvider u) =
     [''Replete-Coder-Qwen-1.5b-Q6_K:latest'', ''qwen2-1_5b-instruct-q8_0:latest'']"
| "available_models (OpenRouterProvider k u) =
     [''nousresearch/hermes-3-llama-3.1-405b:free'', ''mistralai/mistral-7b-instruct:free'',
      ''meta-llama/llama-3.1-8b-instruct:free'', ''microsoft/phi-3-mini-128k-instruct:free'',
      ''qwen/qwen2-7b-instruct:free'']"

fun default_model :: "provider \<Rightarrow> string" where
  "default_model (GroqProvider k u) = ''llama-3.1-8b-instant''"
| "default_model (OllamaProvider u) = ''Replete-Coder-Qwen-1.5b-Q6_K:latest''"
| "default_model (OpenRouterProvider k u) = ''qwen/qwen2-7b-instruct:free''"

text \<open>The literal \<open>configs\<close> dictionary inside each \<open>get_model_config\<close>.\<close>

definition model_cfg :: "int \<Rightarrow> real \<Rightarrow> (string \<times> pyval) list" where
  "model_cfg max_tokens temperature =
     [(''max_tokens'', PyInt max_tokens), (''temperature'', PyFloat temperature)]"

fun configs :: "provider \<Rightarrow> (string \<times> (string \<times> pyval) list) list" where
  "configs (GroqProvider k u) =
     [(''llama-3.1-70b-versatile'', model_cfg 4096 0.2),
      (''llama-3.1-8b-instant'', model_cfg 4096 0.7),
      (''mixtral-8x7b-32768'', model_cfg 32768 0.8),
      (''gemma-7b-it'', model_cfg 8192 0.7)]"
| "configs (OllamaProvider u) =
     [(''Replete-Coder-Qwen-1.5b-Q6_K:latest'', model_cfg 2048 0.3),
      (''qwen2-1_5b-instruct-q8_0:latest'', model_cfg 2048 0.3)]"
| "configs (OpenRouterProvider k u) =
     [(''nousresearch/hermes-3-llama-3.1-405b:free'', model_cfg 4096 0.0),
      (''meta-llama/llama-3.1-8b-instruct:free'', model_cfg 4096 0.3),
      (''mistralai/mistral-7b-instruct:free'', model_cfg 4096 0.3),
      (''microsoft/phi-3-mini-128k-instruct:free'', model_cfg 4096 0.3),
      (''qwen/qwen2-7b-instruct:free'', model_cfg 4096 0.3)]"

text \<open>\<open>configs.get(model_name, {})\<close>: the empty dictionary is the empty association list.\<close>

definition get_model_config :: "provider \<Rightarrow> string \<Rightarrow> (string \<times> pyval) list" where
  "get_model_config p model_name =
     (case map_of (configs p) model_name of None \<Rightarrow> [] | Some c \<Rightarrow> c)"

section \<open>Provider locator (providers/__init__.py)\<close>

definition PROVIDERS :: "(string \<times> (environ \<Rightarrow> exn + provider)) list" where
  "PROVIDERS =
     [(''groq'', GroqProvider_init),
      (''ollama'', OllamaProvider_init),
      (''openrouter'', OpenRouterProvider_init)]"

definition get_provider :: "environ \<Rightarrow> string \<Rightarrow> exn + provider" where
  "get_provider env name =
     (case map_of PROVIDERS name of
        None \<Rightarrow> Inl (ValueError (''Unknown provider: '' @ name))
      | Some provider_class \<Rightarrow> provider_class env)"

text \<open>Environments used as concrete inputs below.\<close>

definition no_keys_env :: environ where
  "no_keys_env = Map.empty"

definition groq_key_env :: environ where
  "groq_key_env = [''GROQ_API_KEY'' \<mapsto> ''gsk_test'']"

section \<open>Feature registry (core/feature_registry.py)\<close>

text \<open>
  \<open>FeatureRegistry._features\<close> is a class-level \<open>dict\<close> from feature name to
  \<open>{'class': ..., 'dependencies': ...}\<close>. Python dictionaries iterate in insertion order and
  assigning to a key that is present keeps its position: this is \<open>AList.update\<close> on an
  association list. The implementing class is represented by its name.
\<close>

record feature_info =
  feature_class :: string
  dependencies :: "string list"

type_synonym registry = "(string \<times> feature_info) list"

text \<open>
  \<open>@FeatureRegistry.register(name, dependencies)\<close> applied to \<open>feature_class\<close>;
  \<open>dependencies or []\<close> turns \<open>None\<close> into the empty list.
\<close>

definition register :: "string \<Rightarrow> string list option \<Rightarrow> string \<Rightarrow> registry \<Rightarrow> registry" where
  "register name deps cls features =
     AList.update name
       \<lparr>feature_class = cls, dependencies = (case deps of None \<Rightarrow> [] | Some d \<Rightarrow> d)\<rparr> features"

definition get_feature :: "registry \<Rightarrow> string \<Rightarrow> string option" where
  "get_feature features name = map_option feature_class (map_of features name)"

definition is_feature_enabled :: "registry \<Rightarrow> string \<Rightarrow> bool" where
  "is_feature_enabled features feature_name \<longleftrightarrow> feature_name \<in> set (map fst features)"

definition get_all_features :: "registry \<Rightarrow> string list" where
  "get_all_features features = map fst features"

definition get_feature_dependencies :: "registry \<Rightarrow> string \<Rightarrow> string list" where
  "get_feature_dependencies features feature_name =
     (case map_of features feature_name of None \<Rightarrow> [] | Some info \<Rightarrow> dependencies info)"

definition get_dependent_features :: "registry \<Rightarrow> string \<Rightarrow> string list" where
  "get_dependent_features features feature_name =
     [f. (f, info) \<leftarrow> features, feature_name \<in> set (dependencies info)]"

text \<open>\<open>FeatureRegistry._features.pop(feature_name, None)\<close>.\<close>

definition pop :: "string \<Rightarrow> registry \<Rightarrow> registry" where
  "pop feature_name features = AList.delete feature_name features"

text \<open>A dictionary has one entry per key; every registry built by the code is of this form.\<close>

definition wf_registry :: "registry \<Rightarrow> bool" where
  "wf_registry features \<longleftrightarrow> distinct (map fst features)"

section \<open>Feature manager commands (feature_manager.py)\<close>

text \<open>
  \<open>remove_feature\<close>: the lines printed by \<open>click.echo\<close> and the registry afterwards.
  \<open>confirm\<close> is the operator's answer to \<open>click.confirm\<close>, asked only when some feature
  depends on the one being removed.
\<close>

definition dependents_warning :: "string \<Rightarrow> string list \<Rightarrow> string list" where
  "dependents_warning feature_name dependent_features =
     (''Warning: The following features depend on '' @ quoted feature_name @ '':'')
       # map (\<lambda>dep. ''- '' @ dep) dependent_features"

definition remove_feature :: "bool \<Rightarrow> string \<Rightarrow> registry \<Rightarrow> string list \<times> registry" where
  "remove_feature confirm feature_name features =
     (if \<not> is_feature_enabled features feature_name
      then ([''Error: Feature '' @ quoted feature_name @ '' is not enabled.''], features)
      else
        let dependent_features = get_dependent_features features feature_name
        in if dependent_features \<noteq> [] \<and> \<not> confirm
           then (dependents_warning feature_name dependent_features, features)
           else ((if dependent_features \<noteq> []
                  then dependents_warning feature_name dependent_features else [])
                   @ [''Feature '' @ quoted feature_name @ '' removed successfully.''],
                 pop feature_name features))"

text \<open>
  \<open>importlib.import_module\<close> is the interpreter's: given the dotted path and the registry
  (which module bodies change through the registration decorator) it either raises or returns
  the module. Of the module, \<open>add_feature\<close> uses only its optional \<open>setup\<close> function.
\<close>

record py_module =
  module_setup :: "(registry \<Rightarrow> (exn + unit) \<times> registry) option"

type_synonym importer = "string \<Rightarrow> registry \<Rightarrow> (exn + py_module) \<times> registry"

text \<open>
  The \<open>except ImportError\<close> clause of \<open>add_feature\<close>: the result is \<open>Inr\<close> of the printed
  lines when the command returns, \<open>Inl e\<close> when \<open>e\<close> leaves the command unhandled.
\<close>

fun add_feature_except :: "string \<Rightarrow> exn \<Rightarrow> exn + string list" where
  "add_feature_except feature_name (ImportError m) =
     Inr [''Error: Feature '' @ quoted feature_name @ '' not found.'']"
| "add_feature_except feature_name e = Inl e"

definition add_feature :: "importer \<Rightarrow> string \<Rightarrow> registry \<Rightarrow> (exn + string list) \<times> registry" where
  "add_feature import_module feature_name features =
     (let feature_path = ''features.'' @ feature_name
      in case import_module feature_path features of
           (Inl e, features1) \<Rightarrow> (add_feature_except feature_name e, features1)
         | (Inr mdl, features1) \<Rightarrow>
             (case module_setup mdl of
                None \<Rightarrow>
                  (Inr [''Feature '' @ quoted feature_name @ '' added successfully.''], features1)
              | Some setup \<Rightarrow>
                  (case setup features1 of
                     (Inl e, features2) \<Rightarrow> (add_feature_except feature_name e, features2)
                   | (Inr u, features2) \<Rightarrow>
                       (Inr [''Feature '' @ quoted feature_name @ '' added successfully.''],
                        features2))))"

subsection \<open>The feature packages of the repository\<close>

text \<open>
  What executing each \<open>features/<name>/__init__.py\<close> does to the registry. Each module
  body looks an attribute up on \<open>FeatureRegistry\<close> and uses the result as class decorator;
  the class has the attributes below, and looking up any other name raises
  \<open>AttributeError\<close>.
\<close>

definition FeatureRegistry_attributes :: "string list" where
  "FeatureRegistry_attributes =
     [''_features'', ''register'', ''get_feature'', ''is_feature_enabled'', ''get_all_features'',
      ''get_feature_dependencies'', ''get_dependent_features'']"

definition FeatureRegistry_getattr :: "string \<Rightarrow> exn + string" where
  "FeatureRegistry_getattr attr =
     (if attr \<in> set FeatureRegistry_attributes then Inr attr
      else Inl (AttributeError (''type object '' @ quoted ''FeatureRegistry''
                  @ '' has no attribute '' @ quoted attr)))"

text \<open>
  A module body \<open>@FeatureRegistry.<attr>(name, dependencies) class cls: ...\<close>: the
  decorator expression is evaluated first. The only attribute the packages look up
  successfully is \<open>register\<close>, so a successful lookup registers the class. The result is
  the exception that ends the body, if any, and the registry.
\<close>

type_synonym module_body = "registry \<Rightarrow> exn option \<times> registry"

definition decorate :: "string \<Rightarrow> string \<Rightarrow> string list option \<Rightarrow> string \<Rightarrow> module_body" where
  "decorate attr name deps cls features =
     (case FeatureRegistry_getattr attr of
        Inl e \<Rightarrow> (Some e, features)
      | Inr a \<Rightarrow> (None, register name deps cls features))"

text \<open>
  What the bodies need from outside the repository. \<open>features/ai_integration\<close> starts by
  importing httpx, \<open>config\<close> (which reads the settings, and raises when a required one is
  missing), \<open>providers\<close>, langchain and pandas, before it reaches its decorator:
  \<open>head_imports\<close> is the exception these imports end with in the installation at hand,
  if any. \<open>bytecode_cache\<close> tells whether the interpreter writes \<open>__pycache__\<close>
  directories. The other packages import the standard library and
  \<open>core.feature_registry\<close> only.
\<close>

record site =
  head_imports :: "exn option"
  bytecode_cache :: bool

definition file_management_body :: module_body where
  "file_management_body = decorate ''register'' ''file_management'' None ''FileManager''"

definition ai_integration_body :: "site \<Rightarrow> module_body" where
  "ai_integration_body site features =
     (case head_imports site of
        Some e \<Rightarrow> (Some e, features)
      | None \<Rightarrow> decorate ''register'' ''ai_integration'' None ''AIIntegration'' features)"

definition code_analysis_body :: module_body where
  "code_analysis_body =
     decorate ''register'' ''code_analysis'' (Some [''ai_integration'']) ''CodeAnalyzer''"

definition dataset_handling_body :: module_body where
  "dataset_handling_body =
     decorate ''register_feature'' ''dataset_handling'' None ''DatasetHandler''"

text \<open>
  \<open>features/bulk_generation\<close> imports \<open>features.ai_integration\<close> and
  \<open>features.file_management\<close> before its own decorator runs.
\<close>

definition bulk_generation_body :: "site \<Rightarrow> module_body" where
  "bulk_generation_body site features =
     (case ai_integration_body site features of
        (Some e, features1) \<Rightarrow> (Some e, features1)
      | (None, features1) \<Rightarrow>
          (case file_management_body features1 of
             (Some e, features2) \<Rightarrow> (Some e, features2)
           | (None, features2) \<Rightarrow>
               decorate ''register'' ''bulk_generation''
                 (Some [''ai_integration'', ''file_management'']) ''BulkGenerator'' features2))"

text \<open>The directory \<open>features\<close>: five packages, each a directory holding \<open>__init__.py\<close>.\<close>

definition feature_packages :: "site \<Rightarrow> (string \<times> module_body) list" where
  "feature_packages site =
     [(''ai_integration'', ai_integration_body site),
      (''bulk_generation'', bulk_generation_body site),
      (''code_analysis'', code_analysis_body),
      (''dataset_handling'', dataset_handling_body),
      (''file_management'', file_management_body)]"

text \<open>
  \<open>importlib.import_module\<close> on this tree, in a process that has loaded no feature yet.
  The dotted path is imported component by component, each parent before its child, and
  the first component that cannot be found ends the import with
  \<open>ModuleNotFoundError\<close>, after the bodies of its parents have run. \<open>features\<close> itself is
  a directory without \<open>__init__.py\<close>, a namespace package without body. Below a feature
  package the finder looks in its directory: \<open>__init__\<close> names the file \<open>__init__.py\<close>,
  which is then executed again as a module of that name, and is no package, so nothing is
  found below it; \<open>__pycache__\<close> names the directory of that name once the interpreter
  has written it, an empty namespace package. \<open>add_feature\<close> asks for paths below
  \<open>features\<close> only; any other path is answered as not found.
\<close>

fun split_dot :: "string \<Rightarrow> string list" where
  "split_dot [] = [[]]"
| "split_dot (c # cs) =
     (if c = CHR ''.'' then [] # split_dot cs
      else (case split_dot cs of [] \<Rightarrow> [[c]] | w # ws \<Rightarrow> (c # w) # ws))"

definition no_module :: "(pyval \<Rightarrow> string) \<Rightarrow> string list \<Rightarrow> exn" where
  "no_module py_repr components =
     ImportError (''No module named '' @ py_repr (PyStr (join ''.'' components)))"

definition not_a_package :: "(pyval \<Rightarrow> string) \<Rightarrow> string list \<Rightarrow> string \<Rightarrow> exn" where
  "not_a_package py_repr components child =
     ImportError (''No module named '' @ py_repr (PyStr (join ''.'' (components @ [child])))
        @ ''; '' @ py_repr (PyStr (join ''.'' components)) @ '' is not a package'')"

fun import_below ::
    "(pyval \<Rightarrow> string) \<Rightarrow> site \<Rightarrow> string \<Rightarrow> module_body \<Rightarrow> string list \<Rightarrow> registry
      \<Rightarrow> (exn + py_module) \<times> registry" where
  "import_below py_repr site package body [] features = (Inr \<lparr>module_setup = None\<rparr>, features)"
| "import_below py_repr site package body (child # rest) features =
     (if child = ''__init__''
      then (case body features of
              (Some e, features1) \<Rightarrow> (Inl e, features1)
            | (None, features1) \<Rightarrow>
                (case rest of
                   [] \<Rightarrow> (Inr \<lparr>module_setup = None\<rparr>, features1)
                 | grandchild # below \<Rightarrow>
                     (Inl (not_a_package py_repr [''features'', package, child] grandchild),
                      features1)))
      else if child = ''__pycache__'' \<and> bytecode_cache site
      then (case rest of
              [] \<Rightarrow> (Inr \<lparr>module_setup = None\<rparr>, features)
            | grandchild # below \<Rightarrow>
                (Inl (no_module py_repr [''features'', package, child, grandchild]), features))
      else (Inl (no_module py_repr [''features'', package, child]), features))"

definition repository_import :: "(pyval \<Rightarrow> string) \<Rightarrow> site \<Rightarrow> importer" where
  "repository_import py_repr site path features =
     (case split_dot path of
        base # package # rest \<Rightarrow>
          (if base \<noteq> ''features'' then (Inl (no_module py_repr [base]), features)
           else case map_of (feature_packages site) package of
                  None \<Rightarrow> (Inl (no_module py_repr [base, package]), features)
                | Some body \<Rightarrow>
                    (case body features of
                       (Some e, features1) \<Rightarrow> (Inl e, features1)
                     | (None, features1) \<Rightarrow>
                         import_below py_repr site package body rest features1))
      | _ \<Rightarrow> (Inl (no_module py_repr [path]), features))"

text \<open>An installation where everything the features import is in place.\<close>

definition complete_site :: site where
  "complete_site = \<lparr>head_imports = None, bytecode_cache = True\<rparr>"

text \<open>A registry with overlapping dependencies, as the shipped features declare them.\<close>

definition sample_registry :: registry where
  "sample_registry =
     register ''bulk_generation'' (Some [''ai_integration'', ''file_management'']) ''BulkGenerator''
       (register ''code_analysis'' (Some [''ai_integration'']) ''CodeAnalyzer''
         (register ''file_management'' None ''FileManager''
           (register ''ai_integration'' None ''AIIntegration'' [])))"

section \<open>HTTP transport of the providers\<close>

text \<open>
  The request each provider posts (URL, headers, JSON payload) and the transport: the
  response to the \<open>n\<close>-th request of a session, so that two calls with the same prompt are
  independent. \<open>raise_for_status\<close> is httpx's: it raises \<open>HTTPStatusError\<close>, carrying the
  response, unless the status is 2xx.
\<close>

record http_request =
  url :: string
  headers :: "(string \<times> string) list"
  payload :: pyval

type_synonym http_client = "nat \<Rightarrow> http_request \<Rightarrow> http_response"

definition is_success :: "http_response \<Rightarrow> bool" where
  "is_success r \<longleftrightarrow> 200 \<le> status_code r \<and> status_code r \<le> 299"

definition raise_for_status :: "http_response \<Rightarrow> exn + http_response" where
  "raise_for_status r = (if is_success r then Inr r else Inl (HTTPStatusError r))"

text \<open>
  Subscripting the decoded body: \<open>obj[key]\<close> with a string key and \<open>obj[0]\<close>, with the
  texts of CPython 3.11.
\<close>

fun py_getitem :: "pyval \<Rightarrow> string \<Rightarrow> exn + pyval" where
  "py_getitem (PyDict d) key =
     (case map_of d key of None \<Rightarrow> Inl (KeyError (quoted key)) | Some v \<Rightarrow> Inr v)"
| "py_getitem (PyList xs) key = Inl (TypeError ''list indices must be integers or slices, not str'')"
| "py_getitem (PyStr s) key =
     Inl (TypeError (''string indices must be integers, not '' @ quoted ''str''))"
| "py_getitem obj key = Inl (TypeError (quoted (type_name obj) @ '' object is not subscriptable''))"

fun py_first :: "pyval \<Rightarrow> exn + pyval" where
  "py_first (PyList []) = Inl (IndexError ''list index out of range'')"
| "py_first (PyList (x # xs)) = Inr x"
| "py_first (PyStr []) = Inl (IndexError ''string index out of range'')"
| "py_first (PyStr (c # cs)) = Inr (PyStr [c])"
| "py_first (PyDict d) = Inl (KeyError ''0'')"
| "py_first obj = Inl (TypeError (quoted (type_name obj) @ '' object is not subscriptable''))"

definition response_json_or_raise :: "http_response \<Rightarrow> exn + pyval" where
  "response_json_or_raise r =
     (case response_json r of Inl m \<Rightarrow> Inl (ValueError m) | Inr v \<Rightarrow> Inr v)"

text \<open>
  \<open>response.json()["choices"][0]["message"]["content"]\<close> and
  \<open>response.json()["response"]\<close>: the value found there is returned as it is.
\<close>

definition chat_completion_content :: "http_response \<Rightarrow> exn + pyval" where
  "chat_completion_content r =
     and_then (response_json_or_raise r) (\<lambda>body.
     and_then (py_getitem body ''choices'') (\<lambda>choices.
     and_then (py_first choices) (\<lambda>choice.
     and_then (py_getitem choice ''message'') (\<lambda>message.
     py_getitem message ''content''))))"

definition generate_response :: "http_response \<Rightarrow> exn + pyval" where
  "generate_response r =
     and_then (response_json_or_raise r) (\<lambda>body. py_getitem body ''response'')"

definition chat_request :: "string \<Rightarrow> string \<Rightarrow> string \<Rightarrow> string \<Rightarrow> http_request" where
  "chat_request base_url bearer model_name prompt =
     \<lparr>url = base_url @ ''/chat/completions'',
      headers = [(''Authorization'', ''Bearer '' @ bearer), (''Content-Type'', ''application/json'')],
      payload = PyDict [(''model'', PyStr model_name),
                        (''messages'', PyList [PyDict [(''role'', PyStr ''user''),
                                                       (''content'', PyStr prompt)]]),
                        (''max_tokens'', PyInt 2048)]\<rparr>"

text \<open>
  \<open>generate_code(model_name, prompt)\<close> of the three providers, as the \<open>n\<close>-th request of
  the session: build the request, post it, \<open>raise_for_status\<close>, read the completion out of
  the body. \<open>GroqProvider\<close> goes through \<open>GroqLLM._call\<close>; an unset key of
  \<open>OpenRouterProvider\<close> is formatted as \<open>None\<close>.
\<close>

fun build_request :: "provider \<Rightarrow> string \<Rightarrow> string \<Rightarrow> http_request" where
  "build_request (GroqProvider api_key base_url) model_name prompt =
     chat_request base_url api_key model_name prompt"
| "build_request (OpenRouterProvider api_key base_url) model_name prompt =
     chat_request base_url (case api_key of None \<Rightarrow> ''None'' | Some k \<Rightarrow> k) model_name prompt"
| "build_request (OllamaProvider base_url) model_name prompt =
     \<lparr>url = base_url @ ''/api/generate'', headers = [],
      payload = PyDict [(''model'', PyStr model_name), (''prompt'', PyStr prompt),
                        (''stream'', PyBool False)]\<rparr>"

fun completion_of :: "provider \<Rightarrow> http_response \<Rightarrow> exn + pyval" where
  "completion_of (GroqProvider api_key base_url) r = chat_completion_content r"
| "completion_of (OpenRouterProvider api_key base_url) r = chat_completion_content r"
| "completion_of (OllamaProvider base_url) r = generate_response r"

definition provider_generate_code ::
    "http_client \<Rightarrow> provider \<Rightarrow> nat \<Rightarrow> string \<Rightarrow> string \<Rightarrow> exn + pyval" where
  "provider_generate_code client p n model_name prompt =
     and_then (raise_for_status (client n (build_request p model_name prompt))) (completion_of p)"

section \<open>AI integration facade (features/ai_integration/__init__.py)\<close>

text \<open>
  The facade is bound to a provider object and a model name and may hold a dataset. Of the
  provider it calls only \<open>generate_code\<close>, and the tests bind a mock, so the provider is
  represented by that method: the outcome of the \<open>n\<close>-th generation call of the session for
  a model name and a prompt. The session state is the log of the calls made so far. The
  facade hands on what the provider returns, whatever it is: its type is the parameter
  \<open>'a\<close>, \<open>pyval\<close> for the three providers of the repository, which return what they find
  in the response.
\<close>

type_synonym 'a generate_fn = "nat \<Rightarrow> string \<Rightarrow> string \<Rightarrow> exn + 'a"

type_synonym call_log = "(string \<times> string) list"

record 'a ai_integration =
  provider :: "'a generate_fn"
  model_name :: string
  dataset :: "pyval list option"

text \<open>
  \<open>__init__\<close>: any failure to resolve the provider is re-raised as \<open>ValueError\<close>. The
  retrieval store loaded by \<open>_load_rag\<close> is outside this model.
\<close>

definition AIIntegration_init ::
    "(pyval \<Rightarrow> string) \<Rightarrow> environ \<Rightarrow> http_client \<Rightarrow> string \<Rightarrow> string option
      \<Rightarrow> exn + pyval ai_integration" where
  "AIIntegration_init py_repr env client provider_name model =
     (case get_provider env provider_name of
        Inl e \<Rightarrow>
          Inl (ValueError (''Failed to initialize provider '' @ quoted provider_name @ '': ''
                 @ exn_str py_repr e))
      | Inr p \<Rightarrow>
          Inr \<lparr>provider = provider_generate_code client p,
               model_name = (case model of None \<Rightarrow> default_model p | Some m \<Rightarrow> m),
               dataset = None\<rparr>)"

text \<open>
  \<open>_parse_error_response\<close>: only the \<open>ValueError\<close> of \<open>response.json()\<close> is caught; an
  \<open>AttributeError\<close> from \<open>.get\<close> on a value that is not a dictionary leaves the method.
  The result is what the f-string of the caller prints.
\<close>

definition parse_error_response :: "(pyval \<Rightarrow> string) \<Rightarrow> http_response \<Rightarrow> exn + string" where
  "parse_error_response py_repr response =
     (case response_json response of
        Inl m \<Rightarrow> Inr (''HTTP '' @ str_int (status_code response) @ '': '' @ response_text response)
      | Inr error_data \<Rightarrow>
          and_then (py_get error_data ''error'' (PyDict [])) (\<lambda>err.
          and_then (py_get err ''message'' (PyStr ''Unknown error occurred'')) (\<lambda>message.
          Inr (format_value py_repr message))))"

text \<open>
  The two \<open>except\<close> clauses of \<open>generate_code\<close>, in source order. An exception raised
  inside the first handler is not caught by the second.
\<close>

fun generate_code_except :: "(pyval \<Rightarrow> string) \<Rightarrow> exn \<Rightarrow> exn" where
  "generate_code_except py_repr (HTTPStatusError response) =
     (case parse_error_response py_repr response of
        Inl e \<Rightarrow> e
      | Inr error_detail \<Rightarrow> ValueError (''API request failed: '' @ error_detail))"
| "generate_code_except py_repr e = ValueError (''Code generation failed: '' @ exn_str py_repr e)"

definition generate_code ::
    "(pyval \<Rightarrow> string) \<Rightarrow> 'a ai_integration \<Rightarrow> string \<Rightarrow> call_log \<Rightarrow> (exn + 'a) \<times> call_log" where
  "generate_code py_repr self prompt calls =
     ((case provider self (length calls) (model_name self) prompt of
         Inr text \<Rightarrow> Inr text
       | Inl e \<Rightarrow> Inl (generate_code_except py_repr e)),
      calls @ [(model_name self, prompt)])"

definition explain_code ::
    "(pyval \<Rightarrow> string) \<Rightarrow> 'a ai_integration \<Rightarrow> string \<Rightarrow> call_log \<Rightarrow> (exn + 'a) \<times> call_log" where
  "explain_code py_repr self code =
     generate_code py_repr self (''Explain the following code:'' @ [CHR 0x0A, CHR 0x0A] @ code)"

text \<open>
  \<open>analyze_row(row, iterations)\<close>. \<open>row\<close> is an integer index or a row object; a dataset
  row is the dictionary that \<open>to_dict()\<close> gives. \<open>range(iterations)\<close> is empty for a
  negative count. The loop stops at the first generation call that raises. The outputs
  are joined as strings, so the method is modelled for a provider that returns \<open>str\<close>, the
  declared result type of \<open>generate_code\<close>.
\<close>

datatype row_arg = RowIndex int | RowData pyval

definition analysis_prompt :: "(pyval \<Rightarrow> string) \<Rightarrow> pyval \<Rightarrow> string" where
  "analysis_prompt py_repr row_data =
     ''Analyze the following data:'' @ [CHR 0x0A, CHR 0x0A] @ format_value py_repr row_data
       @ [CHR 0x0A, CHR 0x0A] @ ''Provide insights and potential next steps.''"

fun analyze_loop ::
    "(pyval \<Rightarrow> string) \<Rightarrow> string ai_integration \<Rightarrow> pyval \<Rightarrow> nat \<Rightarrow> string list \<Rightarrow> call_log
      \<Rightarrow> (exn + string) \<times> call_log" where
  "analyze_loop py_repr self row_data 0 analysis calls =
     (Inr (join [CHR 0x0A, CHR 0x0A] analysis), calls)"
| "analyze_loop py_repr self row_data (Suc k) analysis calls =
     (case generate_code py_repr self (analysis_prompt py_repr row_data) calls of
        (Inl e, calls') \<Rightarrow> (Inl e, calls')
      | (Inr text, calls') \<Rightarrow> analyze_loop py_repr self row_data k (analysis @ [text]) calls')"

definition analyze_row ::
    "(pyval \<Rightarrow> string) \<Rightarrow> string ai_integration \<Rightarrow> row_arg \<Rightarrow> int \<Rightarrow> call_log
      \<Rightarrow> (exn + string) \<times> call_log" where
  "analyze_row py_repr self row iterations calls =
     (case dataset self of
        None \<Rightarrow> (Inl (ValueError ''No dataset loaded. Please load a dataset first.''), calls)
      | Some ds \<Rightarrow>
          (case row of
             RowIndex i \<Rightarrow>
               if i < 0 \<or> i \<ge> int (length ds)
               then (Inl (ValueError (''Row index '' @ str_int i @ '' is out of bounds.'')), calls)
               else analyze_loop py_repr self (ds ! nat i) (nat iterations) [] calls
           | RowData row_data \<Rightarrow>
               analyze_loop py_repr self row_data (nat iterations) [] calls))"

section \<open>Paths and the file system (os.path, os.makedirs, open)\<close>

text \<open>
  \<open>posixpath.join(a, b)\<close>, \<open>posixpath.dirname(p)\<close> and \<open>posixpath.split(p)\<close>, after
  the library source: the path is cut after the last separator, and the head loses its
  trailing separators unless it consists of separators only.
\<close>

definition path_join :: "string \<Rightarrow> string \<Rightarrow> string" where
  "path_join a b =
     (if b \<noteq> [] \<and> hd b = CHR ''/'' then b
      else if a = [] \<or> last a = CHR ''/'' then a @ b
      else a @ ''/'' @ b)"

definition rstrip_sep :: "string \<Rightarrow> string" where
  "rstrip_sep s = rev (dropWhile (\<lambda>c. c = CHR ''/'') (rev s))"

definition dirname :: "string \<Rightarrow> string" where
  "dirname p =
     (let head = rev (dropWhile (\<lambda>c. c \<noteq> CHR ''/'') (rev p))
      in if head \<noteq> [] \<and> head \<noteq> replicate (length head) (CHR ''/'') then rstrip_sep head
         else head)"

definition path_split :: "string \<Rightarrow> string \<times> string" where
  "path_split p = (dirname p, rev (takeWhile (\<lambda>c. c \<noteq> CHR ''/'') (rev p)))"

text \<open>\<open>p.split('/')\<close>: the components of a path, empty ones included.\<close>

fun split_sep :: "string \<Rightarrow> string list" where
  "split_sep [] = [[]]"
| "split_sep (c # cs) =
     (if c = CHR ''/'' then [] # split_sep cs
      else (case split_sep cs of [] \<Rightarrow> [[c]] | w # ws \<Rightarrow> (c # w) # ws))"

text \<open>
  A POSIX file system (Linux) without symbolic links and without permissions: a tree of
  directories and regular files, addressed by the list of names from the root, and the
  working directory of the process. The root and the working directory exist; paths are
  the byte strings the system calls receive.
\<close>

datatype node = Dir | File string

record filesystem =
  nodes :: "string list \<rightharpoonup> node"
  cwd :: "string list"

definition NAME_MAX :: nat where
  "NAME_MAX = 255"

definition PATH_MAX :: nat where
  "PATH_MAX = 4096"

definition start_dir :: "filesystem \<Rightarrow> string \<Rightarrow> string list" where
  "start_dir fs p = (if p \<noteq> [] \<and> hd p = CHR ''/'' then [] else cwd fs)"

text \<open>
  Path resolution by the kernel, component by component, from a place that is a directory
  or a regular file: nothing can be resolved below a regular file; in a directory, empty
  components and \<open>.\<close> stay, \<open>..\<close> goes to the parent, and a name of at most \<open>NAME_MAX\<close>
  bytes goes to the entry of that name, which must exist.
\<close>

datatype place = Directory "string list" | Regular "string list"

fun walk :: "(string list \<rightharpoonup> node) \<Rightarrow> place \<Rightarrow> string list \<Rightarrow> errno + place" where
  "walk t pl [] = Inr pl"
| "walk t (Regular p) (c # cs) = Inl ENOTDIR"
| "walk t (Directory p) (c # cs) =
     (if c = [] \<or> c = ''.'' then walk t (Directory p) cs
      else if c = ''..'' then walk t (Directory (butlast p)) cs
      else if NAME_MAX < length c then Inl ENAMETOOLONG
      else (case t (p @ [c]) of
              None \<Rightarrow> Inl ENOENT
            | Some Dir \<Rightarrow> walk t (Directory (p @ [c])) cs
            | Some (File x) \<Rightarrow> walk t (Regular (p @ [c])) cs))"

text \<open>The components that resolution does not skip as empty.\<close>

definition names :: "string list \<Rightarrow> string list" where
  "names cs = filter (\<lambda>c. c \<noteq> []) cs"

text \<open>
  What every call checks before the kernel resolves the path: Python refuses a path with a
  null byte, the kernel an empty path and a path of \<open>PATH_MAX\<close> bytes or more.
\<close>

definition check_path :: "string \<Rightarrow> exn option" where
  "check_path path =
     (if CHR 0x00 \<in> set path then Some (ValueError ''embedded null byte'')
      else if path = [] then Some (FileNotFoundError path)
      else if PATH_MAX \<le> length path then Some (OSError ENAMETOOLONG path)
      else None)"

text \<open>
  \<open>os.stat(path)\<close>: the place the path leads to. \<open>os.path.exists\<close> and \<open>os.path.isdir\<close>
  call it and answer \<open>False\<close> when it raises.
\<close>

definition stat :: "filesystem \<Rightarrow> string \<Rightarrow> exn + place" where
  "stat fs path =
     (case check_path path of
        Some e \<Rightarrow> Inl e
      | None \<Rightarrow>
          (case walk (nodes fs) (Directory (start_dir fs path)) (split_sep path) of
             Inl en \<Rightarrow> Inl (OSError en path)
           | Inr pl \<Rightarrow> Inr pl))"

definition path_exists :: "filesystem \<Rightarrow> string \<Rightarrow> bool" where
  "path_exists fs path \<longleftrightarrow> \<not> isl (stat fs path)"

definition isdir :: "filesystem \<Rightarrow> string \<Rightarrow> bool" where
  "isdir fs path \<longleftrightarrow> (case stat fs path of Inr (Directory p) \<Rightarrow> True | _ \<Rightarrow> False)"

text \<open>
  The last component of a path is what remains after the trailing separators; the
  components before it must lead to a directory.
\<close>

definition strip_empty :: "string list \<Rightarrow> string list" where
  "strip_empty cs = rev (dropWhile (\<lambda>c. c = []) (rev cs))"

definition ends_with_sep :: "string \<Rightarrow> bool" where
  "ends_with_sep path \<longleftrightarrow> path \<noteq> [] \<and> last path = CHR ''/''"

text \<open>
  \<open>os.mkdir(path)\<close>: creates the directory named by the last component in the directory
  the rest leads to, and raises when an entry of that name is there already.
\<close>

definition mkdir :: "string \<Rightarrow> filesystem \<Rightarrow> exn option \<times> filesystem" where
  "mkdir path fs =
     (case check_path path of
        Some e \<Rightarrow> (Some e, fs)
      | None \<Rightarrow>
          let comps = strip_empty (split_sep path)
          in if comps = [] then (Some (FileExistsError path), fs)
             else (case walk (nodes fs) (Directory (start_dir fs path)) (butlast comps) of
                     Inl en \<Rightarrow> (Some (OSError en path), fs)
                   | Inr (Regular p) \<Rightarrow> (Some (NotADirectoryError path), fs)
                   | Inr (Directory p) \<Rightarrow>
                       let c = last comps
                       in if c = ''.'' \<or> c = ''..'' then (Some (FileExistsError path), fs)
                          else if NAME_MAX < length c then (Some (OSError ENAMETOOLONG path), fs)
                          else if nodes fs (p @ [c]) \<noteq> None then (Some (FileExistsError path), fs)
                          else (None, fs\<lparr>nodes := (nodes fs)(p @ [c] \<mapsto> Dir)\<rparr>)))"

text \<open>
  \<open>os.makedirs(name, exist_ok=True)\<close>, after the library source. The name is split into
  head and tail (once more when the tail is empty); a missing head is created first, by
  the recursive call, of which only \<open>FileExistsError\<close> is ignored; then \<open>mkdir(name)\<close>,
  whose \<open>OSError\<close> is ignored when \<open>name\<close> is a directory.
\<close>

definition head_tail :: "string \<Rightarrow> string \<times> string" where
  "head_tail name =
     (case path_split name of
        (head, tail) \<Rightarrow> if tail = [] then path_split head else (head, tail))"

definition mkdir_exist_ok :: "string \<Rightarrow> filesystem \<Rightarrow> exn option \<times> filesystem" where
  "mkdir_exist_ok name fs =
     (case mkdir name fs of
        (None, fs1) \<Rightarrow> (None, fs1)
      | (Some e, fs1) \<Rightarrow> if is_OSError e \<and> isdir fs1 name then (None, fs1) else (Some e, fs1))"

function makedirs :: "string \<Rightarrow> filesystem \<Rightarrow> exn option \<times> filesystem" where
  "makedirs name fs =
     (let head = fst (head_tail name); tail = snd (head_tail name)
      in if head \<noteq> [] \<and> tail \<noteq> [] \<and> \<not> path_exists fs head
         then (case makedirs head fs of
                 (err, fs1) \<Rightarrow>
                   if (case err of None \<Rightarrow> False | Some e \<Rightarrow> \<not> is_FileExistsError e)
                   then (err, fs1)
                   else if tail = ''.'' then (None, fs1)
                   else mkdir_exist_ok name fs1)
         else mkdir_exist_ok name fs)"
  by pat_completeness auto

termination makedirs
proof (relation "measure (\<lambda>(name, fs). length name)")
  show "wf (measure (\<lambda>(name, fs). length name))"
    by simp
next
  fix name :: string and fs :: filesystem and head tail
  assume head: "head = fst (head_tail name)" and tail: "tail = snd (head_tail name)"
    and cond: "head \<noteq> [] \<and> tail \<noteq> [] \<and> \<not> path_exists fs head"
  have strip: "length (rstrip_sep h) \<le> length h" for h
    by (simp add: rstrip_sep_def length_dropWhile_le [of _ "rev h", simplified])
  have split: "length (fst (path_split p)) + length (snd (path_split p)) \<le> length p" for p
  proof -
    have "length (rev (dropWhile (\<lambda>c. c \<noteq> CHR ''/'') (rev p)))
            + length (rev (takeWhile (\<lambda>c. c \<noteq> CHR ''/'') (rev p))) = length p"
      using takeWhile_dropWhile_id [of "\<lambda>c. c \<noteq> CHR ''/''" "rev p"]
      by (metis add.commute length_append length_rev)
    moreover have "length (dirname p) \<le> length (rev (dropWhile (\<lambda>c. c \<noteq> CHR ''/'') (rev p)))"
      using strip [of "rev (dropWhile (\<lambda>c. c \<noteq> CHR ''/'') (rev p))"]
      by (simp add: dirname_def Let_def)
    ultimately show ?thesis
      by (simp add: path_split_def)
  qed
  have "length head < length name"
  proof (cases "snd (path_split name) = []")
    case True
    then have "head_tail name = path_split (fst (path_split name))"
      by (cases "path_split name") (simp add: head_tail_def)
    then have "length head + length tail \<le> length (fst (path_split name))"
      using split [of "fst (path_split name)"] head tail by simp
    moreover have "length (fst (path_split name)) \<le> length name"
      using split [of name] by simp
    moreover have "tail \<noteq> []"
      using cond by simp
    ultimately show ?thesis by (cases tail) simp_all
  next
    case False
    then have "head_tail name = path_split name"
      by (cases "path_split name") (simp add: head_tail_def)
    then have "length head + length tail \<le> length name"
      using split [of name] head tail by simp
    moreover have "tail \<noteq> []"
      using cond by simp
    ultimately show ?thesis by (cases tail) simp_all
  qed
  then show "((head, fs), (name, fs)) \<in> measure (\<lambda>(name, fs). length name)"
    by simp
qed

declare makedirs.simps [simp del]

text \<open>
  \<open>open(path, 'w')\<close> followed by \<open>write(content)\<close>: creates or truncates the regular file
  named by the last component; it raises when the path names a directory.
  \<open>open(path, 'r')\<close> followed by \<open>read()\<close> gives the content of a regular file.
\<close>

definition open_write :: "string \<Rightarrow> string \<Rightarrow> filesystem \<Rightarrow> (exn + unit) \<times> filesystem" where
  "open_write path content fs =
     (case check_path path of
        Some e \<Rightarrow> (Inl e, fs)
      | None \<Rightarrow>
          let comps = strip_empty (split_sep path)
          in if comps = [] then (Inl (IsADirectoryError path), fs)
             else (case walk (nodes fs) (Directory (start_dir fs path)) (butlast comps) of
                     Inl en \<Rightarrow> (Inl (OSError en path), fs)
                   | Inr (Regular p) \<Rightarrow> (Inl (NotADirectoryError path), fs)
                   | Inr (Directory p) \<Rightarrow>
                       let c = last comps
                       in if ends_with_sep path \<or> c = ''.'' \<or> c = ''..''
                          then (Inl (IsADirectoryError path), fs)
                          else if NAME_MAX < length c then (Inl (OSError ENAMETOOLONG path), fs)
                          else if nodes fs (p @ [c]) = Some Dir
                          then (Inl (IsADirectoryError path), fs)
                          else (Inr (), fs\<lparr>nodes := (nodes fs)(p @ [c] \<mapsto> File content)\<rparr>)))"

definition open_read :: "string \<Rightarrow> filesystem \<Rightarrow> exn + string" where
  "open_read path fs =
     (case stat fs path of
        Inl e \<Rightarrow> Inl e
      | Inr (Directory p) \<Rightarrow> Inl (IsADirectoryError path)
      | Inr (Regular p) \<Rightarrow>
          (case nodes fs p of
             Some (File content) \<Rightarrow> Inr content
           | _ \<Rightarrow> Inl (FileNotFoundError path)))"

section \<open>File manager (features/file_management/__init__.py)\<close>

record file_manager =
  project_root :: string

text \<open>\<open>write_file\<close> uses the path as given: \<open>project_root\<close> is not joined to it.\<close>

definition write_file ::
    "file_manager \<Rightarrow> string \<Rightarrow> string \<Rightarrow> filesystem \<Rightarrow> (exn + unit) \<times> filesystem" where
  "write_file self file_path content fs =
     (case makedirs (dirname file_path) fs of
        (Some e, fs1) \<Rightarrow> (Inl e, fs1)
      | (None, fs1) \<Rightarrow> open_write file_path content fs1)"

definition read_file :: "file_manager \<Rightarrow> string \<Rightarrow> filesystem \<Rightarrow> exn + string" where
  "read_file self file_path fs = open_read (path_join (project_root self) file_path) fs"

definition empty_fs :: filesystem where
  "empty_fs = \<lparr>nodes = Map.empty, cwd = []\<rparr>"

section \<open>Bulk project generator (features/bulk_generation/__init__.py)\<close>

text \<open>
  The generator holds the facade and a file manager, of which it calls only
  \<open>write_file\<close>; a fake may stand in, so the file manager is that method over some store
  \<open>'fs\<close>. The state of a run is the log of generation calls, the log of \<open>write_file\<close>
  calls (made, whether or not they succeed) and the store. A plan is the dictionary under
  its \<open>files\<close> key: planned path and description, in insertion order.
\<close>

record 'fs bulk_generator =
  ai :: "string ai_integration"
  file_manager :: "string \<Rightarrow> string \<Rightarrow> 'fs \<Rightarrow> (exn + unit) \<times> 'fs"

record 'fs run_state =
  calls :: call_log
  writes :: "(string \<times> string) list"
  disk :: 'fs

record project_plan =
  files :: "(string \<times> string) list"

definition file_prompt :: "string \<Rightarrow> string \<Rightarrow> string" where
  "file_prompt file_path file_description =
     ''Generate the content for the following file:'' @ [CHR 0x0A, CHR 0x0A]
       @ ''File: '' @ file_path @ [CHR 0x0A]
       @ ''Description: '' @ file_description @ [CHR 0x0A, CHR 0x0A]
       @ ''Provide only the file content in your response.''"

definition generate_file_content ::
    "(pyval \<Rightarrow> string) \<Rightarrow> 'fs bulk_generator \<Rightarrow> string \<Rightarrow> string \<Rightarrow> call_log
      \<Rightarrow> (exn + string) \<times> call_log" where
  "generate_file_content py_repr self file_path file_description =
     generate_code py_repr (ai self) (file_prompt file_path file_description)"

fun create_project_loop ::
    "(pyval \<Rightarrow> string) \<Rightarrow> 'fs bulk_generator \<Rightarrow> string \<Rightarrow> (string \<times> string) list
      \<Rightarrow> 'fs run_state \<Rightarrow> (exn + unit) \<times> 'fs run_state" where
  "create_project_loop py_repr self output_dir [] st = (Inr (), st)"
| "create_project_loop py_repr self output_dir ((file_path, file_description) # rest) st =
     (case generate_file_content py_repr self file_path file_description (calls st) of
        (Inl e, calls') \<Rightarrow> (Inl e, st\<lparr>calls := calls'\<rparr>)
      | (Inr content, calls') \<Rightarrow>
          let full_path = path_join output_dir file_path
          in (case file_manager self full_path content (disk st) of
                (Inl e, disk') \<Rightarrow>
                  (Inl e, st\<lparr>calls := calls', writes := writes st @ [(full_path, content)],
                              disk := disk'\<rparr>)
              | (Inr u, disk') \<Rightarrow>
                  create_project_loop py_repr self output_dir rest
                    (st\<lparr>calls := calls', writes := writes st @ [(full_path, content)],
                        disk := disk'\<rparr>)))"

definition create_project ::
    "(pyval \<Rightarrow> string) \<Rightarrow> 'fs bulk_generator \<Rightarrow> project_plan \<Rightarrow> string \<Rightarrow> 'fs run_state
      \<Rightarrow> (exn + unit) \<times> 'fs run_state" where
  "create_project py_repr self project_plan output_dir st =
     create_project_loop py_repr self output_dir (files project_plan) st"

text \<open>
  Notions for stating what a run did. The first \<open>length outs\<close> entries of a plan are
  served when the generation call of each returned (\<open>outs\<close>, in plan order) and the write
  of each succeeded, taking the store from \<open>disks ! j\<close> to \<open>disks ! Suc j\<close>, starting
  from the store of the state. \<open>plan_calls\<close> are the generation calls of the entries and
  \<open>plan_writes\<close> the writes of the outputs, as the logs record them.
\<close>

definition served ::
    "'fs bulk_generator \<Rightarrow> string \<Rightarrow> (string \<times> string) list \<Rightarrow> 'fs run_state \<Rightarrow> string list
      \<Rightarrow> 'fs list \<Rightarrow> bool" where
  "served self output_dir entries st outs disks \<longleftrightarrow>
     length outs \<le> length entries \<and> length disks = Suc (length outs) \<and> disks ! 0 = disk st \<and>
     (\<forall>j<length outs.
        provider (ai self) (length (calls st) + j) (model_name (ai self))
          (file_prompt (fst (entries ! j)) (snd (entries ! j))) = Inr (outs ! j) \<and>
        file_manager self (path_join output_dir (fst (entries ! j))) (outs ! j) (disks ! j)
          = (Inr (), disks ! Suc j))"

definition plan_calls :: "'fs bulk_generator \<Rightarrow> (string \<times> string) list \<Rightarrow> call_log" where
  "plan_calls self entries =
     map (\<lambda>entry. (model_name (ai self), file_prompt (fst entry) (snd entry))) entries"

definition plan_writes ::
    "string \<Rightarrow> (string \<times> string) list \<Rightarrow> string list \<Rightarrow> (string \<times> string) list" where
  "plan_writes output_dir entries outs =
     map (\<lambda>(entry, out). (path_join output_dir (fst entry), out)) (zip entries outs)"

section \<open>Concrete providers, facades and transports used as inputs\<close>

text \<open>
  A rendering of values to stand for \<open>repr\<close>: right on strings without quotes or escapes,
  a placeholder on the other values. Then a provider that echoes and one that is down.
\<close>

definition plain_str :: "pyval \<Rightarrow> string" where
  "plain_str v = (case v of PyStr s \<Rightarrow> quoted s | _ \<Rightarrow> ''<'' @ type_name v @ ''>'')"

definition echo_provider :: "string generate_fn" where
  "echo_provider n model prompt = Inr prompt"

definition down_provider :: "string generate_fn" where
  "down_provider n model prompt = Inl (OtherException ''connection refused'')"

definition echo_ai :: "string ai_integration" where
  "echo_ai = \<lparr>provider = echo_provider, model_name = ''m'',
               dataset = Some [PyDict [(''x'', PyInt 1)], PyDict [(''x'', PyInt 2)]]\<rparr>"

definition down_ai :: "string ai_integration" where
  "down_ai = \<lparr>provider = down_provider, model_name = ''m'',
               dataset = Some [PyDict [(''x'', PyInt 1)], PyDict [(''x'', PyInt 2)]]\<rparr>"

text \<open>Transports that answer every request with one response.\<close>

definition server_error_client :: http_client where
  "server_error_client n request =
     \<lparr>status_code = 500, response_text = ''{}'', response_json = Inr (PyDict []),
      status_error = ''Server error '' @ quoted ''500 Internal Server Error''\<rparr>"

definition unauthorized_client :: http_client where
  "unauthorized_client n request =
     \<lparr>status_code = 401,
      response_text = ''{\"error\": {\"message\": \"Invalid API Key\"}}'',
      response_json = Inr (PyDict [(''error'', PyDict [(''message'', PyStr ''Invalid API Key'')])]),
      status_error = ''Client error '' @ quoted ''401 Unauthorized''\<rparr>"

definition bad_gateway_client :: http_client where
  "bad_gateway_client n request =
     \<lparr>status_code = 502, response_text = ''Bad Gateway'',
      response_json = Inl ''Expecting value: line 1 column 1 (char 0)'',
      status_error = ''Server error '' @ quoted ''502 Bad Gateway''\<rparr>"

definition ollama_ai :: "http_client \<Rightarrow> pyval ai_integration" where
  "ollama_ai client =
     \<lparr>provider = provider_generate_code client (OllamaProvider ''http://localhost:11434''),
      model_name = ''Replete-Coder-Qwen-1.5b-Q6_K:latest'', dataset = None\<rparr>"

definition the_file_manager :: file_manager where
  "the_file_manager = \<lparr>project_root = ''.''\<rparr>"

definition echo_generator :: "filesystem bulk_generator" where
  "echo_generator = \<lparr>ai = echo_ai, file_manager = write_file the_file_manager\<rparr>"

definition down_generator :: "filesystem bulk_generator" where
  "down_generator = \<lparr>ai = down_ai, file_manager = write_file the_file_manager\<rparr>"

definition initial_state :: "filesystem run_state" where
  "initial_state = \<lparr>calls = [], writes = [], disk = empty_fs\<rparr>"

definition one_file_plan :: project_plan where
  "one_file_plan = \<lparr>files = [(''a.py'', ''desc'')]\<rparr>"

definition two_file_plan :: project_plan where
  "two_file_plan = \<lparr>files = [(''a.py'', ''desc''), (''b.py'', ''other'')]\<rparr>"

text \<open>A disk where a regular file is in the way, and the disks of a run that writes two files.\<close>

definition blocked_fs :: filesystem where
  "blocked_fs = \<lparr>nodes = [[''out''] \<mapsto> File ''not a directory''], cwd = []\<rparr>"

definition fs_a :: filesystem where
  "fs_a = \<lparr>nodes = [[''out''] \<mapsto> Dir, [''out'', ''a.py''] \<mapsto> File (file_prompt ''a.py'' ''desc'')],
           cwd = []\<rparr>"

definition fs_ab :: filesystem where
  "fs_ab = \<lparr>nodes = [[''out''] \<mapsto> Dir, [''out'', ''a.py''] \<mapsto> File (file_prompt ''a.py'' ''desc''),
                     [''out'', ''b.py''] \<mapsto> File (file_prompt ''b.py'' ''other'')],
           cwd = []\<rparr>"

section \<open>Auxiliary facts\<close>

subsection \<open>Registry\<close>

lemma wf_registry_empty: "wf_registry []"
  by (simp add: wf_registry_def)

lemma wf_registry_register:
  "wf_registry features \<Longrightarrow> wf_registry (register name deps cls features)"
  by (simp add: wf_registry_def register_def distinct_update)

lemma wf_registry_pop: "wf_registry features \<Longrightarrow> wf_registry (pop name features)"
  by (simp add: wf_registry_def pop_def distinct_delete)

lemma wf_sample_registry: "wf_registry sample_registry"
  by (simp add: sample_registry_def wf_registry_register wf_registry_empty)

lemma sample_registry_entries:
  "sample_registry =
     [(''ai_integration'', \<lparr>feature_class = ''AIIntegration'', dependencies = []\<rparr>),
      (''file_management'', \<lparr>feature_class = ''FileManager'', dependencies = []\<rparr>),
      (''code_analysis'', \<lparr>feature_class = ''CodeAnalyzer'', dependencies = [''ai_integration'']\<rparr>),
      (''bulk_generation'',
       \<lparr>feature_class = ''BulkGenerator'',
          dependencies = [''ai_integration'', ''file_management'']\<rparr>)]"
  by (simp add: sample_registry_def register_def)

lemma pop_keys: "map fst (pop n features) = filter (\<lambda>m. m \<noteq> n) (map fst features)"
  by (induction features) (auto simp: pop_def)

lemma pop_map_of: "m \<noteq> n \<Longrightarrow> map_of (pop n features) m = map_of features m"
  by (simp add: pop_def)

lemma pop_dependents:
  "get_dependent_features (pop n features) f
     = filter (\<lambda>m. m \<noteq> n) (get_dependent_features features f)"
  by (induction features) (auto simp: pop_def get_dependent_features_def)

subsection \<open>Generation calls\<close>

lemma provider_generate_code_status:
  "\<not> is_success (client n (build_request p model prompt)) \<Longrightarrow>
   provider_generate_code client p n model prompt
     = Inl (HTTPStatusError (client n (build_request p model prompt)))"
  by (simp add: provider_generate_code_def raise_for_status_def and_then_def)

lemma zip_take_length: "zip (take (length ys) xs) ys = zip xs ys"
  by (induction xs ys rule: list_induct2') auto

lemma generate_code_ok:
  "provider self (length made) (model_name self) prompt = Inr out \<Longrightarrow>
   generate_code py_repr self prompt made = (Inr out, made @ [(model_name self, prompt)])"
  by (simp add: generate_code_def)

lemma generate_code_raises:
  "provider self (length made) (model_name self) prompt = Inl e \<Longrightarrow>
   generate_code py_repr self prompt made
     = (Inl (generate_code_except py_repr e), made @ [(model_name self, prompt)])"
  by (simp add: generate_code_def)

lemma create_project_loop_prefix:
  "served self output_dir entries st outs disks \<Longrightarrow>
   create_project_loop py_repr self output_dir entries st
     = create_project_loop py_repr self output_dir (drop (length outs) entries)
         (st\<lparr>calls := calls st @ plan_calls self (take (length outs) entries),
             writes := writes st @ plan_writes output_dir entries outs,
             disk := last disks\<rparr>)"
proof (induction outs arbitrary: entries st disks)
  case Nil
  then obtain d where "disks = [d]" and "d = disk st"
    by (cases disks) (auto simp: served_def)
  then show ?case
    by (simp add: plan_calls_def plan_writes_def)
next
  case (Cons out outs)
  obtain entry entries' where entries: "entries = entry # entries'"
    using Cons.prems by (cases entries) (auto simp: served_def)
  obtain file_path file_description where entry: "entry = (file_path, file_description)"
    by (cases entry)
  obtain d disks' where disks: "disks = d # disks'" and d: "d = disk st"
    using Cons.prems by (cases disks) (auto simp: served_def)
  have len: "length disks' = Suc (length outs)"
    using Cons.prems by (simp add: served_def disks)
  then have ne: "disks' \<noteq> []" by auto
  let ?prompt = "file_prompt file_path file_description"
  let ?full = "path_join output_dir file_path"
  let ?st1 = "st\<lparr>calls := calls st @ [(model_name (ai self), ?prompt)],
                  writes := writes st @ [(?full, out)], disk := disks' ! 0\<rparr>"
  have first: "provider (ai self) (length (calls st)) (model_name (ai self)) ?prompt = Inr out"
    and wr: "file_manager self ?full out (disk st) = (Inr (), disks' ! 0)"
    using Cons.prems by (auto simp: served_def entries entry disks d)
  have step: "create_project_loop py_repr self output_dir entries st
      = create_project_loop py_repr self output_dir entries' ?st1"
    using generate_code_ok [OF first, of py_repr] wr
    by (simp add: entries entry generate_file_content_def)
  have "served self output_dir entries' ?st1 outs disks'"
    unfolding served_def
  proof (intro conjI allI impI)
    show "length outs \<le> length entries'"
      using Cons.prems by (simp add: served_def entries)
    show "length disks' = Suc (length outs)" by (rule len)
    show "disks' ! 0 = disk ?st1" by simp
  next
    fix j assume "j < length outs"
    then have j: "Suc j < length (out # outs)" by simp
    from Cons.prems have all: "\<forall>j<length (out # outs).
        provider (ai self) (length (calls st) + j) (model_name (ai self))
          (file_prompt (fst (entries ! j)) (snd (entries ! j))) = Inr ((out # outs) ! j) \<and>
        file_manager self (path_join output_dir (fst (entries ! j))) ((out # outs) ! j) (disks ! j)
          = (Inr (), disks ! Suc j)"
      by (simp add: served_def)
    from all j have both: "provider (ai self) (length (calls st) + Suc j) (model_name (ai self))
          (file_prompt (fst (entries ! Suc j)) (snd (entries ! Suc j))) = Inr ((out # outs) ! Suc j) \<and>
        file_manager self (path_join output_dir (fst (entries ! Suc j))) ((out # outs) ! Suc j)
          (disks ! Suc j) = (Inr (), disks ! Suc (Suc j))"
      by blast
    from both show "provider (ai self) (length (calls ?st1) + j) (model_name (ai self))
          (file_prompt (fst (entries' ! j)) (snd (entries' ! j))) = Inr (outs ! j)"
      by (simp add: entries)
    from both show "file_manager self (path_join output_dir (fst (entries' ! j))) (outs ! j)
          (disks' ! j) = (Inr (), disks' ! Suc j)"
      by (simp add: entries disks)
  qed
  from Cons.IH [OF this] step show ?case
    using ne by (simp add: entries entry disks plan_calls_def plan_writes_def)
qed

lemma create_project_loop_success:
  "create_project_loop py_repr self output_dir entries st = (Inr (), st') \<Longrightarrow>
   \<exists>outs disks. length outs = length entries \<and> served self output_dir entries st outs disks \<and>
     st' = st\<lparr>calls := calls st @ plan_calls self entries,
               writes := writes st @ plan_writes output_dir entries outs,
               disk := last disks\<rparr>"
proof (induction entries arbitrary: st)
  case Nil
  then have "served self output_dir [] st [] [disk st]"
    and "st' = st\<lparr>calls := calls st @ plan_calls self [],
               writes := writes st @ plan_writes output_dir [] [],
               disk := last [disk st]\<rparr>"
    by (simp_all add: served_def plan_calls_def plan_writes_def)
  then show ?case by (metis list.size(3))
next
  case (Cons entry entries)
  obtain file_path file_description where entry: "entry = (file_path, file_description)"
    by (cases entry)
  let ?prompt = "file_prompt file_path file_description"
  let ?made = "calls st @ [(model_name (ai self), ?prompt)]"
  let ?full = "path_join output_dir file_path"
  obtain content where first: "provider (ai self) (length (calls st)) (model_name (ai self)) ?prompt = Inr content"
    using Cons.prems
    by (cases "provider (ai self) (length (calls st)) (model_name (ai self)) ?prompt")
      (auto simp: entry generate_file_content_def generate_code_def)
  have gen: "generate_code py_repr (ai self) ?prompt (calls st) = (Inr content, ?made)"
    using first by (rule generate_code_ok)
  obtain disk' where wr: "file_manager self ?full content (disk st) = (Inr (), disk')"
    using Cons.prems gen
    by (auto simp: entry generate_file_content_def Let_def split: prod.splits sum.splits)
  let ?st1 = "st\<lparr>calls := ?made, writes := writes st @ [(?full, content)], disk := disk'\<rparr>"
  have rest: "create_project_loop py_repr self output_dir entries ?st1 = (Inr (), st')"
    using Cons.prems gen wr by (simp add: entry generate_file_content_def)
  from Cons.IH [OF rest] obtain outs disks where len: "length outs = length entries"
    and srv: "served self output_dir entries ?st1 outs disks"
    and st': "st' = ?st1\<lparr>calls := calls ?st1 @ plan_calls self entries,
               writes := writes ?st1 @ plan_writes output_dir entries outs,
               disk := last disks\<rparr>"
    by blast
  have ne: "disks \<noteq> []" and d0: "disks ! 0 = disk'"
    using srv by (auto simp: served_def)
  have "served self output_dir (entry # entries) st (content # outs) (disk st # disks)"
    unfolding served_def
  proof (intro conjI allI impI)
    show "length (content # outs) \<le> length (entry # entries)" using len by simp
    show "length (disk st # disks) = Suc (length (content # outs))"
      using srv by (simp add: served_def)
    show "(disk st # disks) ! 0 = disk st" by simp
  next
    fix j assume j: "j < length (content # outs)"
    show "provider (ai self) (length (calls st) + j) (model_name (ai self))
          (file_prompt (fst ((entry # entries) ! j)) (snd ((entry # entries) ! j)))
          = Inr ((content # outs) ! j)"
    proof (cases j)
      case 0
      then show ?thesis using first by (simp add: entry)
    next
      case (Suc i)
      then have "i < length outs" using j by simp
      then show ?thesis using srv Suc by (simp add: served_def)
    qed
    show "file_manager self (path_join output_dir (fst ((entry # entries) ! j)))
          ((content # outs) ! j) ((disk st # disks) ! j) = (Inr (), (disk st # disks) ! Suc j)"
    proof (cases j)
      case 0
      then show ?thesis using wr d0 by (simp add: entry)
    next
      case (Suc i)
      then have "i < length outs" using j by simp
      then show ?thesis using srv Suc by (simp add: served_def)
    qed
  qed
  moreover have "length (content # outs) = length (entry # entries)"
    using len by simp
  moreover have "st' = st\<lparr>calls := calls st @ plan_calls self (entry # entries),
               writes := writes st @ plan_writes output_dir (entry # entries) (content # outs),
               disk := last (disk st # disks)\<rparr>"
    using st' ne by (simp add: entry plan_calls_def plan_writes_def)
  ultimately show ?case by blast
qed

lemma create_project_loop_failure:
  "j < length entries \<Longrightarrow>
   provider (ai self) (length (calls st) + j) (model_name (ai self))
     (file_prompt (fst (entries ! j)) (snd (entries ! j))) = Inl e \<Longrightarrow>
   isl (fst (create_project_loop py_repr self output_dir entries st))"
proof (induction entries arbitrary: st j)
  case Nil
  then show ?case by simp
next
  case (Cons entry entries)
  obtain file_path file_description where entry: "entry = (file_path, file_description)"
    by (cases entry)
  let ?prompt = "file_prompt file_path file_description"
  let ?made = "calls st @ [(model_name (ai self), ?prompt)]"
  show ?case
  proof (cases "provider (ai self) (length (calls st)) (model_name (ai self)) ?prompt")
    case (Inl e0)
    then show ?thesis
      by (simp add: entry generate_file_content_def generate_code_raises)
  next
    case (Inr content)
    have j: "j \<noteq> 0"
    proof
      assume "j = 0"
      then show False using Cons.prems(2) Inr by (simp add: entry)
    qed
    then obtain j' where j': "j = Suc j'" by (cases j) auto
    have gen: "generate_code py_repr (ai self) ?prompt (calls st) = (Inr content, ?made)"
      using Inr by (rule generate_code_ok)
    let ?full = "path_join output_dir file_path"
    show ?thesis
    proof (cases "file_manager self ?full content (disk st)")
      case (Pair res disk')
      show ?thesis
      proof (cases res)
        case (Inl e1)
        then show ?thesis
          using gen Pair by (simp add: entry generate_file_content_def)
      next
        case (Inr u)
        let ?st1 = "st\<lparr>calls := ?made, writes := writes st @ [(?full, content)], disk := disk'\<rparr>"
        have "j' < length entries" using Cons.prems(1) j' by simp
        moreover have "provider (ai self) (length (calls ?st1) + j') (model_name (ai self))
            (file_prompt (fst (entries ! j')) (snd (entries ! j'))) = Inl e"
          using Cons.prems(2) j' by simp
        ultimately have "isl (fst (create_project_loop py_repr self output_dir entries ?st1))"
          by (rule Cons.IH)
        then show ?thesis
          using gen Pair Inr by (simp add: entry generate_file_content_def)
      qed
    qed
  qed
qed

lemma create_project_completes:
  assumes "served self output_dir entries st outs disks" and "length outs = length entries"
  shows "create_project py_repr self \<lparr>files = entries\<rparr> output_dir st
     = (Inr (), st\<lparr>calls := calls st @ plan_calls self entries,
                    writes := writes st @ plan_writes output_dir entries outs,
                    disk := last disks\<rparr>)"
  using create_project_loop_prefix [OF assms(1), of py_repr] assms(2)
  by (simp add: create_project_def)

lemma create_project_generation_fails:
  assumes "served self output_dir entries st outs disks" and "length outs < length entries"
    and "provider (ai self) (length (calls st) + length outs) (model_name (ai self))
           (file_prompt (fst (entries ! length outs)) (snd (entries ! length outs))) = Inl e"
  shows "create_project py_repr self \<lparr>files = entries\<rparr> output_dir st
     = (Inl (generate_code_except py_repr e),
        st\<lparr>calls := calls st @ plan_calls self (take (Suc (length outs)) entries),
            writes := writes st @ plan_writes output_dir entries outs,
            disk := last disks\<rparr>)"
proof -
  obtain entry rest where dr: "drop (length outs) entries = entry # rest"
    using assms(2) by (cases "drop (length outs) entries") auto
  then have entry: "entry = entries ! length outs"
    using assms(2) by (metis Cons_nth_drop_Suc list.inject)
  let ?st1 = "st\<lparr>calls := calls st @ plan_calls self (take (length outs) entries),
             writes := writes st @ plan_writes output_dir entries outs,
             disk := last disks\<rparr>"
  have len: "length (calls ?st1) = length (calls st) + length outs"
    using assms(2) by (simp add: plan_calls_def)
  have "provider (ai self) (length (calls ?st1)) (model_name (ai self))
           (file_prompt (fst entry) (snd entry)) = Inl e"
    using assms(3) len entry by simp
  from generate_code_raises [OF this, of py_repr]
  have "create_project_loop py_repr self output_dir (entry # rest) ?st1
     = (Inl (generate_code_except py_repr e),
        ?st1\<lparr>calls := calls ?st1 @ [(model_name (ai self), file_prompt (fst entry) (snd entry))]\<rparr>)"
    by (cases entry) (simp add: generate_file_content_def)
  moreover have "plan_calls self (take (Suc (length outs)) entries)
      = plan_calls self (take (length outs) entries)
          @ [(model_name (ai self), file_prompt (fst entry) (snd entry))]"
    using assms(2) entry by (simp add: plan_calls_def take_Suc_conv_app_nth)
  ultimately show ?thesis
    using create_project_loop_prefix [OF assms(1), of py_repr] dr
    by (simp add: create_project_def)
qed

lemma create_project_write_fails:
  assumes "served self output_dir entries st outs disks" and "length outs < length entries"
    and "provider (ai self) (length (calls st) + length outs) (model_name (ai self))
           (file_prompt (fst (entries ! length outs)) (snd (entries ! length outs))) = Inr out"
    and "file_manager self (path_join output_dir (fst (entries ! length outs))) out (last disks)
           = (Inl e, disk')"
  shows "create_project py_repr self \<lparr>files = entries\<rparr> output_dir st
     = (Inl e,
        st\<lparr>calls := calls st @ plan_calls self (take (Suc (length outs)) entries),
            writes := writes st @ plan_writes output_dir entries (outs @ [out]),
            disk := disk'\<rparr>)"
proof -
  obtain entry rest where dr: "drop (length outs) entries = entry # rest"
    using assms(2) by (cases "drop (length outs) entries") auto
  then have entry: "entry = entries ! length outs"
    using assms(2) by (metis Cons_nth_drop_Suc list.inject)
  let ?st1 = "st\<lparr>calls := calls st @ plan_calls self (take (length outs) entries),
             writes := writes st @ plan_writes output_dir entries outs,
             disk := last disks\<rparr>"
  have len: "length (calls ?st1) = length (calls st) + length outs"
    using assms(2) by (simp add: plan_calls_def)
  have "provider (ai self) (length (calls ?st1)) (model_name (ai self))
           (file_prompt (fst entry) (snd entry)) = Inr out"
    using assms(3) len entry by simp
  from generate_code_ok [OF this, of py_repr] assms(4)
  have "create_project_loop py_repr self output_dir (entry # rest) ?st1
     = (Inl e,
        ?st1\<lparr>calls := calls ?st1 @ [(model_name (ai self), file_prompt (fst entry) (snd entry))],
              writes := writes ?st1 @ [(path_join output_dir (fst entry), out)],
              disk := disk'\<rparr>)"
    by (cases entry) (simp add: generate_file_content_def entry [symmetric])
  moreover have "plan_calls self (take (Suc (length outs)) entries)
      = plan_calls self (take (length outs) entries)
          @ [(model_name (ai self), file_prompt (fst entry) (snd entry))]"
    using assms(2) entry by (simp add: plan_calls_def take_Suc_conv_app_nth)
  moreover have "plan_writes output_dir entries (outs @ [out])
      = plan_writes output_dir entries outs @ [(path_join output_dir (fst entry), out)]"
  proof -
    have "zip entries (outs @ [out])
        = zip (take (length outs) entries) outs @ zip (drop (length outs) entries) [out]"
      by (simp add: zip_append2)
    moreover have "zip (take (length outs) entries) outs = zip entries outs"
      by (rule zip_take_length)
    ultimately show ?thesis
      by (simp add: plan_writes_def dr)
  qed
  ultimately show ?thesis
    using create_project_loop_prefix [OF assms(1), of py_repr] dr
    by (simp add: create_project_def)
qed

lemma analyze_loop_all_ok:
  "\<forall>j<length outs.
      provider self (length made + j) (model_name self) (analysis_prompt py_repr row_data)
        = Inr (outs ! j) \<Longrightarrow>
   analyze_loop py_repr self row_data (length outs) acc made
     = (Inr (join [CHR 0x0A, CHR 0x0A] (acc @ outs)),
        made @ replicate (length outs) (model_name self, analysis_prompt py_repr row_data))"
proof (induction outs arbitrary: acc made)
  case Nil
  then show ?case by simp
next
  case (Cons out outs)
  have first: "provider self (length made) (model_name self) (analysis_prompt py_repr row_data) = Inr out"
    using Cons.prems by force
  have rest: "\<forall>j<length outs.
      provider self (length (made @ [(model_name self, analysis_prompt py_repr row_data)]) + j)
        (model_name self) (analysis_prompt py_repr row_data) = Inr (outs ! j)"
    using Cons.prems by force
  show ?case
    using Cons.IH [OF rest, of "acc @ [out]"] generate_code_ok [OF first, of py_repr]
    by (simp add: replicate_app_Cons_same)
qed

lemma analyze_loop_first_failure:
  "length outs < k \<Longrightarrow>
   \<forall>j<length outs.
      provider self (length made + j) (model_name self) (analysis_prompt py_repr row_data)
        = Inr (outs ! j) \<Longrightarrow>
   provider self (length made + length outs) (model_name self) (analysis_prompt py_repr row_data)
     = Inl e \<Longrightarrow>
   analyze_loop py_repr self row_data k acc made
     = (Inl (generate_code_except py_repr e),
        made @ replicate (Suc (length outs)) (model_name self, analysis_prompt py_repr row_data))"
proof (induction outs arbitrary: k acc made)
  case Nil
  then obtain k' where k: "k = Suc k'" by (cases k) auto
  show ?case
    using Nil generate_code_raises [of self made "analysis_prompt py_repr row_data" e py_repr]
    by (simp add: k)
next
  case (Cons out outs)
  then obtain k' where k: "k = Suc k'" by (cases k) auto
  have first: "provider self (length made) (model_name self) (analysis_prompt py_repr row_data) = Inr out"
    using Cons.prems(2) by force
  have rest: "\<forall>j<length outs.
      provider self (length (made @ [(model_name self, analysis_prompt py_repr row_data)]) + j)
        (model_name self) (analysis_prompt py_repr row_data) = Inr (outs ! j)"
    using Cons.prems(2) by force
  have fails: "provider self
        (length (made @ [(model_name self, analysis_prompt py_repr row_data)]) + length outs)
        (model_name self) (analysis_prompt py_repr row_data) = Inl e"
    using Cons.prems(3) by simp
  have "length outs < k'" using Cons.prems(1) k by simp
  from Cons.IH [OF this rest fails, of "acc @ [out]"] generate_code_ok [OF first, of py_repr]
  show ?case
    by (simp add: k replicate_app_Cons_same)
qed

subsection \<open>Paths and the file system\<close>






















text \<open>Evaluation of the file-system calls on concrete paths.\<close>

lemmas fs_eval = write_file_def makedirs.simps [of "''/out''"] makedirs.simps [of "''out''"]
      head_tail_def path_split_def dirname_def
      rstrip_sep_def mkdir_exist_ok_def mkdir_def check_path_def isdir_def stat_def path_exists_def
      start_dir_def open_write_def open_read_def strip_empty_def ends_with_sep_def
      NAME_MAX_def PATH_MAX_def Let_def

lemma write_a: "write_file the_file_manager ''/out/a.py'' (file_prompt ''a.py'' ''desc'') empty_fs
     = (Inr (), fs_a)"
  by (simp add: fs_eval empty_fs_def fs_a_def)

lemma write_b: "write_file the_file_manager ''/out/b.py'' (file_prompt ''b.py'' ''other'') fs_a
     = (Inr (), fs_ab)"
  by (simp add: fs_eval fs_a_def fs_ab_def)

lemma read_b: "open_read ''/out/b.py'' fs_ab = Inr (file_prompt ''b.py'' ''other'')"
  by (simp add: fs_eval fs_ab_def)

lemma write_blocked: "write_file the_file_manager ''out/a.py'' content blocked_fs
     = (Inl (FileExistsError ''out''), blocked_fs)"
  by (simp add: fs_eval blocked_fs_def)

subsection \<open>Feature packages\<close>

lemma split_dot_nonempty: "split_dot xs \<noteq> []"
  by (induction xs) (auto split: list.splits)

lemma split_dot_features:
  "split_dot (''features.'' @ feature_name) = ''features'' # split_dot feature_name"
  using split_dot_nonempty [of feature_name]
  by (cases "split_dot feature_name") simp_all

lemma repository_import_no_package:
  assumes "hd (split_dot feature_name) \<notin> set (map fst (feature_packages site))"
  shows "repository_import py_repr site (''features.'' @ feature_name) features
     = (Inl (no_module py_repr [''features'', hd (split_dot feature_name)]), features)"
proof -
  obtain package rest where sp: "split_dot feature_name = package # rest"
    using split_dot_nonempty [of feature_name] by (cases "split_dot feature_name") auto
  have "map_of (feature_packages site) package = None"
    using assms sp by (simp add: map_of_eq_None_iff)
  then show ?thesis
    unfolding repository_import_def split_dot_features sp by simp
qed

lemma import_telemetry:
  "repository_import plain_str complete_site (''features.'' @ ''telemetry'') sample_registry
     = (Inl (ImportError (''No module named '' @ quoted ''features.telemetry'')), sample_registry)"
  by (simp add: repository_import_def feature_packages_def no_module_def plain_str_def)

lemma import_dataset_handling:
  "repository_import plain_str complete_site (''features.'' @ ''dataset_handling'') sample_registry
     = (Inl (AttributeError (''type object '' @ quoted ''FeatureRegistry''
              @ '' has no attribute '' @ quoted ''register_feature'')), sample_registry)"
  by (simp add: repository_import_def feature_packages_def dataset_handling_body_def decorate_def
      FeatureRegistry_getattr_def FeatureRegistry_attributes_def)

lemma import_below_file_management:
  "repository_import plain_str complete_site (''features.'' @ ''file_management.x'') []
     = (Inl (ImportError (''No module named '' @ quoted ''features.file_management.x'')),
        [(''file_management'', \<lparr>feature_class = ''FileManager'', dependencies = []\<rparr>)])"
  by (simp add: repository_import_def feature_packages_def file_management_body_def decorate_def
      FeatureRegistry_getattr_def FeatureRegistry_attributes_def register_def no_module_def
      plain_str_def)

subsection \<open>Model configuration\<close>

lemma model_cfg_shape:
  "0 < a \<Longrightarrow> 0 \<le> b \<Longrightarrow> b \<le> 1 \<Longrightarrow>
   \<exists>n t. model_cfg a b = [(''max_tokens'', PyInt n), (''temperature'', PyFloat t)] \<and>
         0 < n \<and> 0 \<le> t \<and> t \<le> 1"
  by (simp add: model_cfg_def)

lemma ollama_ai_provider:
  "provider (ollama_ai client)
     = provider_generate_code client (OllamaProvider ''http://localhost:11434'')"
  by (simp add: ollama_ai_def)

lemma served_two_files:
  "served echo_generator ''/out'' [(''a.py'', ''desc''), (''b.py'', ''other'')] initial_state
     [file_prompt ''a.py'' ''desc'', file_prompt ''b.py'' ''other''] [empty_fs, fs_a, fs_ab]"
  using write_a write_b
  by (simp add: served_def echo_generator_def echo_ai_def echo_provider_def initial_state_def
      path_join_def less_Suc_eq)

lemma served_nothing: "served self output_dir entries st [] [disk st]"
  by (simp add: served_def)

section \<open>Verified claims\<close>

subsection \<open>Provider locator\<close>

text \<open>
  C1, as stated, fails: \<open>groq\<close> is a registered name, and with no \<open>GROQ_API_KEY\<close> in the
  environment resolving it raises instead of returning a provider.
\<close>

theorem get_provider_groq_without_key:
  "get_provider no_keys_env ''groq''
     = Inl (ValueError ''GROQ_API_KEY environment variable is not set'')"
  by (simp add: get_provider_def PROVIDERS_def GroqProvider_init_def getenv_def no_keys_env_def)

text \<open>
  C1 (amended): a name outside the table of three fails with the unknown-provider error;
  \<open>ollama\<close> and \<open>openrouter\<close> always resolve to a provider whose default model is one of
  its available models; \<open>groq\<close> does so when \<open>GROQ_API_KEY\<close> is set and not empty, and
  otherwise fails with the error of its constructor. Every resolution runs the constructor
  anew: the locator keeps no instance.
\<close>

theorem get_provider_resolution:
  "(name \<notin> set (map fst PROVIDERS) \<longrightarrow>
      get_provider env name = Inl (ValueError (''Unknown provider: '' @ name))) \<and>
   set (map fst PROVIDERS) = {''groq'', ''ollama'', ''openrouter''} \<and>
   (name \<in> {''ollama'', ''openrouter''} \<longrightarrow>
      (\<exists>p. get_provider env name = Inr p \<and> default_model p \<in> set (available_models p))) \<and>
   (name = ''groq'' \<longrightarrow>
      (if getenv env ''GROQ_API_KEY'' = None \<or> getenv env ''GROQ_API_KEY'' = Some []
       then get_provider env name
              = Inl (ValueError ''GROQ_API_KEY environment variable is not set'')
       else \<exists>p. get_provider env name = Inr p \<and> default_model p \<in> set (available_models p)))"
  by (auto simp: get_provider_def PROVIDERS_def GroqProvider_init_def OllamaProvider_init_def
      OpenRouterProvider_init_def split: option.splits)

theorem get_provider_resolution_witness:
  "''unknown-x'' \<notin> set (map fst PROVIDERS) \<and>
   get_provider no_keys_env ''unknown-x'' = Inl (ValueError ''Unknown provider: unknown-x'') \<and>
   ''ollama'' \<in> {''ollama'', ''openrouter''} \<and>
   (\<exists>p. get_provider no_keys_env ''ollama'' = Inr p \<and>
        default_model p \<in> set (available_models p)) \<and>
   getenv groq_key_env ''GROQ_API_KEY'' = Some ''gsk_test'' \<and>
   (\<exists>p. get_provider groq_key_env ''groq'' = Inr p \<and>
        default_model p \<in> set (available_models p))"
  using get_provider_resolution [of "''unknown-x''" no_keys_env]
    get_provider_resolution [of "''ollama''" no_keys_env]
    get_provider_resolution [of "''groq''" groq_key_env]
  by (simp add: PROVIDERS_def getenv_def groq_key_env_def)

subsection \<open>Credentials at construction\<close>

text \<open>
  C2 holds for \<open>GroqProvider\<close> and fails for \<open>OpenRouterProvider\<close>: with no key in the
  environment the first constructor raises, the second returns an instance whose key is
  \<open>None\<close>.
\<close>

theorem openrouter_without_key:
  "GroqProvider_init no_keys_env
     = Inl (ValueError ''GROQ_API_KEY environment variable is not set'') \<and>
   OpenRouterProvider_init no_keys_env
     = Inr (OpenRouterProvider None ''https://openrouter.ai/api/v1'')"
  by (simp add: GroqProvider_init_def OpenRouterProvider_init_def getenv_def no_keys_env_def)

subsection \<open>Model configuration\<close>

text \<open>
  C7: for every provider, \<open>get_model_config\<close> is total; on a model outside the catalog
  \<open>available_models\<close> it returns the empty dictionary, and on a model of the catalog the
  entry of that model in \<open>configs\<close>, which is a dictionary of exactly two items:
  \<open>max_tokens\<close>, a positive \<open>int\<close>, and \<open>temperature\<close>, a \<open>float\<close> between 0 and 1.
\<close>

theorem get_model_config_catalog:
  "(model \<notin> set (available_models p) \<longrightarrow> get_model_config p model = []) \<and>
   (model \<in> set (available_models p) \<longrightarrow>
      map_of (configs p) model = Some (get_model_config p model) \<and>
      (\<exists>n t. get_model_config p model
                = [(''max_tokens'', PyInt n), (''temperature'', PyFloat t)] \<and>
             0 < n \<and> 0 \<le> t \<and> t \<le> 1))"
  by (cases p) (auto simp: get_model_config_def intro!: model_cfg_shape)

theorem get_model_config_catalog_witness:
  "''gpt-4'' \<notin> set (available_models (OllamaProvider ''http://localhost:11434'')) \<and>
   get_model_config (OllamaProvider ''http://localhost:11434'') ''gpt-4'' = [] \<and>
   ''gemma-7b-it'' \<in> set (available_models (GroqProvider ''k'' ''u'')) \<and>
   map_of (configs (GroqProvider ''k'' ''u'')) ''gemma-7b-it''
     = Some (get_model_config (GroqProvider ''k'' ''u'') ''gemma-7b-it'') \<and>
   map (get_model_config (GroqProvider ''k'' ''u'')) (available_models (GroqProvider ''k'' ''u''))
     = [[(''max_tokens'', PyInt 4096), (''temperature'', PyFloat 0.2)],
        [(''max_tokens'', PyInt 4096), (''temperature'', PyFloat 0.7)],
        [(''max_tokens'', PyInt 32768), (''temperature'', PyFloat 0.8)],
        [(''max_tokens'', PyInt 8192), (''temperature'', PyFloat 0.7)]] \<and>
   map (get_model_config (OllamaProvider ''u'')) (available_models (OllamaProvider ''u''))
     = [[(''max_tokens'', PyInt 2048), (''temperature'', PyFloat 0.3)],
        [(''max_tokens'', PyInt 2048), (''temperature'', PyFloat 0.3)]] \<and>
   map (get_model_config (OpenRouterProvider None ''u''))
       (available_models (OpenRouterProvider None ''u''))
     = [[(''max_tokens'', PyInt 4096), (''temperature'', PyFloat 0.0)],
        [(''max_tokens'', PyInt 4096), (''temperature'', PyFloat 0.3)],
        [(''max_tokens'', PyInt 4096), (''temperature'', PyFloat 0.3)],
        [(''max_tokens'', PyInt 4096), (''temperature'', PyFloat 0.3)],
        [(''max_tokens'', PyInt 4096), (''temperature'', PyFloat 0.3)]]"
proof -
  have "get_model_config (OllamaProvider ''http://localhost:11434'') ''gpt-4'' = []"
    using get_model_config_catalog [of "''gpt-4''" "OllamaProvider ''http://localhost:11434''"]
    by simp
  moreover have "map_of (configs (GroqProvider ''k'' ''u'')) ''gemma-7b-it''
     = Some (get_model_config (GroqProvider ''k'' ''u'') ''gemma-7b-it'')"
    using get_model_config_catalog [of "''gemma-7b-it''" "GroqProvider ''k'' ''u''"]
    by simp
  ultimately show ?thesis
    by (simp add: get_model_config_def model_cfg_def)
qed

subsection \<open>Dependents of a feature\<close>

text \<open>
  C4: \<open>get_dependent_features features f\<close> lists exactly the registered names whose entry
  has \<open>f\<close> among its dependencies, whether or not \<open>f\<close> is registered; on a registry with
  one entry per name these are the enabled features whose \<open>get_feature_dependencies\<close>
  contain \<open>f\<close>.
\<close>

theorem get_dependent_features_exact:
  "set (get_dependent_features features f)
     = {n. \<exists>info. (n, info) \<in> set features \<and> f \<in> set (dependencies info)} \<and>
   (wf_registry features \<longrightarrow>
      set (get_dependent_features features f)
        = {n. is_feature_enabled features n \<and> f \<in> set (get_feature_dependencies features n)})"
  by (auto simp: get_dependent_features_def wf_registry_def is_feature_enabled_def
      get_feature_dependencies_def rev_image_eqI split: option.splits)

theorem get_dependent_features_exact_witness:
  "wf_registry sample_registry \<and>
   get_dependent_features sample_registry ''ai_integration''
     = [''code_analysis'', ''bulk_generation''] \<and>
   set (get_dependent_features sample_registry ''ai_integration'')
     = {n. is_feature_enabled sample_registry n \<and>
           ''ai_integration'' \<in> set (get_feature_dependencies sample_registry n)}"
proof -
  have "get_dependent_features sample_registry ''ai_integration''
          = [''code_analysis'', ''bulk_generation'']"
    by (simp add: get_dependent_features_def sample_registry_entries)
  then show ?thesis
    using get_dependent_features_exact [of sample_registry "''ai_integration''"]
      wf_sample_registry
    by blast
qed

subsection \<open>Removing a feature\<close>

text \<open>
  C8, as stated, fails: \<open>ai_integration\<close> is registered and has dependents, and when the
  operator declines the confirmation it is still enabled after \<open>remove_feature\<close>.
\<close>

theorem remove_feature_declined:
  "is_feature_enabled sample_registry ''ai_integration'' \<and>
   is_feature_enabled (snd (remove_feature False ''ai_integration'' sample_registry))
     ''ai_integration''"
  by (simp add: remove_feature_def is_feature_enabled_def get_dependent_features_def
      sample_registry_entries)

text \<open>
  C8 (amended): when \<open>n\<close> is registered and either has no dependents or the operator
  confirms, then after \<open>remove_feature\<close> the name is not enabled and not listed, the other
  names keep their order, every other entry is unchanged, dependency lists included, and
  the dependents of any feature are the former ones without \<open>n\<close>. When \<open>n\<close> is not
  registered, or has dependents and the operator declines, the registry is unchanged.
\<close>

theorem remove_feature_frame:
  "(is_feature_enabled features n \<and> (get_dependent_features features n = [] \<or> confirm) \<longrightarrow>
      \<not> is_feature_enabled (snd (remove_feature confirm n features)) n \<and>
      n \<notin> set (get_all_features (snd (remove_feature confirm n features))) \<and>
      get_all_features (snd (remove_feature confirm n features))
        = filter (\<lambda>m. m \<noteq> n) (get_all_features features) \<and>
      (\<forall>m. m \<noteq> n \<longrightarrow>
         map_of (snd (remove_feature confirm n features)) m = map_of features m \<and>
         get_feature_dependencies (snd (remove_feature confirm n features)) m
           = get_feature_dependencies features m) \<and>
      (\<forall>f. get_dependent_features (snd (remove_feature confirm n features)) f
           = filter (\<lambda>m. m \<noteq> n) (get_dependent_features features f))) \<and>
   (\<not> is_feature_enabled features n \<longrightarrow> snd (remove_feature confirm n features) = features) \<and>
   (get_dependent_features features n \<noteq> [] \<and> \<not> confirm \<longrightarrow>
      snd (remove_feature confirm n features) = features)"
proof -
  have removed: "snd (remove_feature confirm n features) = pop n features"
    if "is_feature_enabled features n" "get_dependent_features features n = [] \<or> confirm"
    using that by (auto simp: remove_feature_def Let_def)
  have kept: "snd (remove_feature confirm n features) = features"
    if "\<not> is_feature_enabled features n
        \<or> (get_dependent_features features n \<noteq> [] \<and> \<not> confirm)"
    using that by (auto simp: remove_feature_def Let_def)
  show ?thesis
    using removed kept
    by (auto simp: is_feature_enabled_def get_all_features_def get_feature_dependencies_def
        pop_keys pop_map_of pop_dependents)
qed

theorem remove_feature_frame_witness:
  "is_feature_enabled sample_registry ''file_management'' \<and>
   \<not> is_feature_enabled (snd (remove_feature True ''file_management'' sample_registry))
       ''file_management'' \<and>
   get_all_features (snd (remove_feature True ''file_management'' sample_registry))
     = [''ai_integration'', ''code_analysis'', ''bulk_generation''] \<and>
   get_feature_dependencies (snd (remove_feature True ''file_management'' sample_registry))
       ''bulk_generation''
     = [''ai_integration'', ''file_management''] \<and>
   \<not> is_feature_enabled sample_registry ''telemetry'' \<and>
   snd (remove_feature True ''telemetry'' sample_registry) = sample_registry \<and>
   get_dependent_features sample_registry ''ai_integration'' \<noteq> [] \<and>
   snd (remove_feature False ''ai_integration'' sample_registry) = sample_registry"
proof -
  have enabled: "is_feature_enabled sample_registry ''file_management''"
    and absent: "\<not> is_feature_enabled sample_registry ''telemetry''"
    by (simp_all add: is_feature_enabled_def sample_registry_entries)
  have deps: "get_dependent_features sample_registry ''ai_integration'' \<noteq> []"
    by (simp add: get_dependent_features_def sample_registry_entries)
  have names: "get_all_features sample_registry
      = [''ai_integration'', ''file_management'', ''code_analysis'', ''bulk_generation'']"
    and bulk: "get_feature_dependencies sample_registry ''bulk_generation''
      = [''ai_integration'', ''file_management'']"
    by (simp_all add: get_all_features_def get_feature_dependencies_def sample_registry_entries)
  show ?thesis
    using remove_feature_frame [of sample_registry "''file_management''" True]
      remove_feature_frame [of sample_registry "''telemetry''" True]
      remove_feature_frame [of sample_registry "''ai_integration''" False]
      enabled absent deps names bulk
    by simp
qed


subsection \<open>Adding a feature\<close>

text \<open>
  C9, as stated, fails: loading \<open>features.dataset_handling\<close> raises \<open>AttributeError\<close>
  (its decorator is \<open>FeatureRegistry.register_feature\<close>, which the registry does not
  have), and \<open>add_feature\<close> lets that exception out.
\<close>

theorem add_feature_attribute_error_escapes:
  "fst (add_feature (repository_import plain_str complete_site) ''dataset_handling'' [])
     = Inl (AttributeError (''type object '' @ quoted ''FeatureRegistry''
              @ '' has no attribute '' @ quoted ''register_feature''))"
  by (simp add: add_feature_def repository_import_def feature_packages_def
      dataset_handling_body_def decorate_def FeatureRegistry_getattr_def
      FeatureRegistry_attributes_def)

text \<open>
  C9 (amended): when loading the module of a feature raises \<open>ImportError\<close>, \<open>add_feature\<close>
  swallows it: the command prints that the feature was not found and returns, and the
  registry is what the failed import left. When loading raises any other exception, the
  exception leaves \<open>add_feature\<close>. For a name whose first dotted component is none of the
  packages of the repository, the import fails in the first way before any module body has
  run, and the registry is unchanged.
\<close>

theorem add_feature_import_error:
  "(import_module (''features.'' @ feature_name) features = (Inl (ImportError m), features') \<longrightarrow>
      add_feature import_module feature_name features
        = (Inr [''Error: Feature '' @ quoted feature_name @ '' not found.''], features')) \<and>
   (import_module (''features.'' @ feature_name) features = (Inl e, features') \<and>
      (\<forall>m. e \<noteq> ImportError m) \<longrightarrow>
      add_feature import_module feature_name features = (Inl e, features')) \<and>
   (hd (split_dot feature_name) \<notin> set (map fst (feature_packages site)) \<longrightarrow>
      add_feature (repository_import py_repr site) feature_name features
        = (Inr [''Error: Feature '' @ quoted feature_name @ '' not found.''], features))"
proof -
  have other: "add_feature_except feature_name e = Inl e" if "\<forall>m. e \<noteq> ImportError m" for e
    using that by (cases e) auto
  have absent: "add_feature (repository_import py_repr site) feature_name features
        = (Inr [''Error: Feature '' @ quoted feature_name @ '' not found.''], features)"
    if "hd (split_dot feature_name) \<notin> set (map fst (feature_packages site))"
    unfolding add_feature_def Let_def repository_import_no_package [OF that] no_module_def
    by simp
  show ?thesis
    using absent by (auto simp: add_feature_def other)
qed

theorem add_feature_import_error_witness:
  "add_feature (repository_import plain_str complete_site) ''telemetry'' sample_registry
     = (Inr [''Error: Feature '' @ quoted ''telemetry'' @ '' not found.''], sample_registry) \<and>
   \<not> is_feature_enabled sample_registry ''telemetry'' \<and>
   repository_import plain_str complete_site (''features.'' @ ''file_management.x'') []
     = (Inl (ImportError (''No module named '' @ quoted ''features.file_management.x'')),
        [(''file_management'', \<lparr>feature_class = ''FileManager'', dependencies = []\<rparr>)]) \<and>
   add_feature (repository_import plain_str complete_site) ''file_management.x'' []
     = (Inr [''Error: Feature '' @ quoted ''file_management.x'' @ '' not found.''],
        [(''file_management'', \<lparr>feature_class = ''FileManager'', dependencies = []\<rparr>)]) \<and>
   repository_import plain_str complete_site (''features.'' @ ''dataset_handling'') sample_registry
     = (Inl (AttributeError (''type object '' @ quoted ''FeatureRegistry''
              @ '' has no attribute '' @ quoted ''register_feature'')), sample_registry) \<and>
   add_feature (repository_import plain_str complete_site) ''dataset_handling'' sample_registry
     = (Inl (AttributeError (''type object '' @ quoted ''FeatureRegistry''
              @ '' has no attribute '' @ quoted ''register_feature'')), sample_registry)"
proof -
  have absent: "hd (split_dot ''telemetry'') \<notin> set (map fst (feature_packages complete_site))"
    by (simp add: feature_packages_def)
  have "add_feature (repository_import plain_str complete_site) ''telemetry'' sample_registry
     = (Inr [''Error: Feature '' @ quoted ''telemetry'' @ '' not found.''], sample_registry)"
    using add_feature_import_error [where feature_name = "''telemetry''" and site = complete_site
        and py_repr = plain_str and features = sample_registry] absent
    by blast
  moreover have "\<not> is_feature_enabled sample_registry ''telemetry''"
    by (simp add: is_feature_enabled_def sample_registry_entries)
  moreover have "add_feature (repository_import plain_str complete_site) ''file_management.x'' []
     = (Inr [''Error: Feature '' @ quoted ''file_management.x'' @ '' not found.''],
        [(''file_management'', \<lparr>feature_class = ''FileManager'', dependencies = []\<rparr>)])"
    using add_feature_import_error [where import_module = "repository_import plain_str complete_site"
        and feature_name = "''file_management.x''" and features = "[]"
        and features' = "[(''file_management'', \<lparr>feature_class = ''FileManager'', dependencies = []\<rparr>)]"]
      import_below_file_management
    by blast
  moreover have "add_feature (repository_import plain_str complete_site) ''dataset_handling''
        sample_registry
     = (Inl (AttributeError (''type object '' @ quoted ''FeatureRegistry''
              @ '' has no attribute '' @ quoted ''register_feature'')), sample_registry)"
    using add_feature_import_error [where import_module = "repository_import plain_str complete_site"
        and feature_name = "''dataset_handling''" and features = sample_registry
        and features' = sample_registry] import_dataset_handling
    by blast
  ultimately show ?thesis
    using import_below_file_management import_dataset_handling by simp
qed

subsection \<open>Error detail of a failed generation call\<close>

text \<open>
  C6, as stated, fails: a 500 response whose body is the JSON object \<open>{}\<close> has no
  \<open>error.message\<close>, and the message raised is the fixed text \<open>Unknown error occurred\<close>,
  which holds neither the status nor the body.
\<close>

theorem generate_code_unknown_error:
  "fst (generate_code plain_str (ollama_ai server_error_client) ''print(1)'' [])
     = Inl (ValueError ''API request failed: Unknown error occurred'')"
  by (simp add: generate_code_def ollama_ai_def provider_generate_code_def raise_for_status_def
      is_success_def server_error_client_def and_then_def parse_error_response_def
      format_value_def)

text \<open>
  C6 (amended): when the request of a generation call is answered with a status outside
  2xx and the body either is not JSON or is a JSON object whose \<open>error\<close> is absent or an
  object, \<open>generate_code\<close> raises \<open>ValueError\<close> with the text \<open>API request failed:\<close>
  followed by: the status and the raw body when the body is not JSON; the field
  \<open>error.message\<close> when the \<open>error\<close> object holds \<open>message\<close>; the fixed text
  \<open>Unknown error occurred\<close> when \<open>error\<close> is absent or the \<open>error\<close> object holds no
  \<open>message\<close>.
\<close>

theorem generate_code_http_failure:
  assumes "provider self = provider_generate_code client p"
    and "r = client (length made) (build_request p (model_name self) prompt)"
    and "\<not> is_success r"
  shows "(\<forall>m. response_json r = Inl m \<longrightarrow>
            fst (generate_code py_repr self prompt made)
              = Inl (ValueError (''API request failed: '' @
                       ''HTTP '' @ str_int (status_code r) @ '': '' @ response_text r))) \<and>
         (\<forall>body err message.
            response_json r = Inr (PyDict body) \<and> map_of body ''error'' = Some (PyDict err) \<and>
            map_of err ''message'' = Some message \<longrightarrow>
            fst (generate_code py_repr self prompt made)
              = Inl (ValueError (''API request failed: '' @ format_value py_repr message))) \<and>
         (\<forall>body err.
            response_json r = Inr (PyDict body) \<and>
            (map_of body ''error'' = None \<or>
             map_of body ''error'' = Some (PyDict err) \<and> map_of err ''message'' = None) \<longrightarrow>
            fst (generate_code py_repr self prompt made)
              = Inl (ValueError ''API request failed: Unknown error occurred''))"
  using assms provider_generate_code_status [of client "length made" p "model_name self" prompt]
  by (auto simp: generate_code_def parse_error_response_def and_then_def format_value_def)

theorem generate_code_http_failure_witness:
  "\<not> is_success (unauthorized_client 0 (build_request (OllamaProvider ''http://localhost:11434'')
        (model_name (ollama_ai unauthorized_client)) ''print(1)'')) \<and>
   fst (generate_code plain_str (ollama_ai unauthorized_client) ''print(1)'' [])
     = Inl (ValueError ''API request failed: Invalid API Key'') \<and>
   \<not> is_success (bad_gateway_client 0 (build_request (OllamaProvider ''http://localhost:11434'')
        (model_name (ollama_ai bad_gateway_client)) ''print(1)'')) \<and>
   fst (generate_code plain_str (ollama_ai bad_gateway_client) ''print(1)'' [])
     = Inl (ValueError ''API request failed: HTTP 502: Bad Gateway'') \<and>
   \<not> is_success (server_error_client 0 (build_request (OllamaProvider ''http://localhost:11434'')
        (model_name (ollama_ai server_error_client)) ''print(2)'')) \<and>
   fst (generate_code plain_str (ollama_ai server_error_client) ''print(2)'' [])
     = Inl (ValueError ''API request failed: Unknown error occurred'')"
proof -
  let ?p = "OllamaProvider ''http://localhost:11434''"
  have u: "\<not> is_success (unauthorized_client (length ([] :: call_log))
              (build_request ?p (model_name (ollama_ai unauthorized_client)) ''print(1)''))"
    by (simp add: is_success_def unauthorized_client_def)
  have b: "\<not> is_success (bad_gateway_client (length ([] :: call_log))
              (build_request ?p (model_name (ollama_ai bad_gateway_client)) ''print(1)''))"
    by (simp add: is_success_def bad_gateway_client_def)
  have s: "\<not> is_success (server_error_client (length ([] :: call_log))
              (build_request ?p (model_name (ollama_ai server_error_client)) ''print(2)''))"
    by (simp add: is_success_def server_error_client_def)
  have digits: "str_int 502 = ''502''"
    by code_simp
  have "fst (generate_code plain_str (ollama_ai unauthorized_client) ''print(1)'' [])
     = Inl (ValueError ''API request failed: Invalid API Key'')"
    using generate_code_http_failure [where self = "ollama_ai unauthorized_client"
        and client = unauthorized_client and p = "?p" and made = "[]" and prompt = "''print(1)''"
        and py_repr = plain_str, OF ollama_ai_provider refl u]
    by (simp add: unauthorized_client_def format_value_def)
  moreover have "fst (generate_code plain_str (ollama_ai bad_gateway_client) ''print(1)'' [])
     = Inl (ValueError ''API request failed: HTTP 502: Bad Gateway'')"
    using generate_code_http_failure [where self = "ollama_ai bad_gateway_client"
        and client = bad_gateway_client and p = "?p" and made = "[]" and prompt = "''print(1)''"
        and py_repr = plain_str, OF ollama_ai_provider refl b] digits
    by (simp add: bad_gateway_client_def)
  moreover have "fst (generate_code plain_str (ollama_ai server_error_client) ''print(2)'' [])
     = Inl (ValueError ''API request failed: Unknown error occurred'')"
    using generate_code_http_failure [where self = "ollama_ai server_error_client"
        and client = server_error_client and p = "?p" and made = "[]" and prompt = "''print(2)''"
        and py_repr = plain_str, OF ollama_ai_provider refl s]
    by (simp add: server_error_client_def)
  ultimately show ?thesis using u b s by simp
qed

subsection \<open>Analysing a dataset row\<close>

text \<open>
  C3, as stated, fails: with a provider that is down, \<open>analyze_row(0, 2)\<close> on a dataset of
  two rows makes one generation call, not two, and raises instead of returning outputs.
\<close>

theorem analyze_row_stops_at_failure:
  "analyze_row plain_str down_ai (RowIndex 0) 2 []
     = (Inl (ValueError ''Code generation failed: connection refused''),
        [(''m'', analysis_prompt plain_str (PyDict [(''x'', PyInt 1)]))])"
  by (simp add: analyze_row_def down_ai_def down_provider_def generate_code_def
      numeral_2_eq_2)

text \<open>
  C3 (amended): on a loaded dataset \<open>ds\<close>, an index \<open>i < 0\<close> or \<open>i \<ge> len(ds)\<close> makes
  \<open>analyze_row\<close> raise the out-of-bounds error with no generation call. For an index in
  range, if each of the \<open>k\<close> generation calls returns (\<open>outs\<close> in call order), exactly
  \<open>k\<close> calls are made (none when \<open>k\<close> is negative), each with the analysis prompt of row
  \<open>i\<close>, and the result is \<open>outs\<close> joined by blank lines; if the calls before the
  \<open>(length outs + 1)\<close>-th return and that one raises, the loop stops there and its error
  is raised.
\<close>

theorem analyze_row_amended:
  assumes "dataset self = Some ds"
  shows "(i < 0 \<or> int (length ds) \<le> i \<longrightarrow>
            analyze_row py_repr self (RowIndex i) k made
              = (Inl (ValueError (''Row index '' @ str_int i @ '' is out of bounds.'')), made)) \<and>
         (0 \<le> i \<and> i < int (length ds) \<and> length outs = nat k \<and>
          (\<forall>j<nat k. provider self (length made + j) (model_name self)
                         (analysis_prompt py_repr (ds ! nat i)) = Inr (outs ! j)) \<longrightarrow>
            analyze_row py_repr self (RowIndex i) k made
              = (Inr (join [CHR 0x0A, CHR 0x0A] outs),
                 made @ replicate (nat k) (model_name self, analysis_prompt py_repr (ds ! nat i)))) \<and>
         (0 \<le> i \<and> i < int (length ds) \<and> length outs < nat k \<and>
          (\<forall>j<length outs. provider self (length made + j) (model_name self)
                         (analysis_prompt py_repr (ds ! nat i)) = Inr (outs ! j)) \<and>
          provider self (length made + length outs) (model_name self)
                         (analysis_prompt py_repr (ds ! nat i)) = Inl e \<longrightarrow>
            analyze_row py_repr self (RowIndex i) k made
              = (Inl (generate_code_except py_repr e),
                 made @ replicate (Suc (length outs))
                         (model_name self, analysis_prompt py_repr (ds ! nat i))))"
proof (intro conjI impI)
  assume "i < 0 \<or> int (length ds) \<le> i"
  then show "analyze_row py_repr self (RowIndex i) k made
              = (Inl (ValueError (''Row index '' @ str_int i @ '' is out of bounds.'')), made)"
    using assms by (auto simp: analyze_row_def)
next
  assume h: "0 \<le> i \<and> i < int (length ds) \<and> length outs = nat k \<and>
          (\<forall>j<nat k. provider self (length made + j) (model_name self)
                         (analysis_prompt py_repr (ds ! nat i)) = Inr (outs ! j))"
  then have "\<forall>j<length outs. provider self (length made + j) (model_name self)
                         (analysis_prompt py_repr (ds ! nat i)) = Inr (outs ! j)"
    by simp
  from analyze_loop_all_ok [OF this, of "[]"] h assms
  show "analyze_row py_repr self (RowIndex i) k made
              = (Inr (join [CHR 0x0A, CHR 0x0A] outs),
                 made @ replicate (nat k) (model_name self, analysis_prompt py_repr (ds ! nat i)))"
    by (auto simp: analyze_row_def)
next
  assume h: "0 \<le> i \<and> i < int (length ds) \<and> length outs < nat k \<and>
          (\<forall>j<length outs. provider self (length made + j) (model_name self)
                         (analysis_prompt py_repr (ds ! nat i)) = Inr (outs ! j)) \<and>
          provider self (length made + length outs) (model_name self)
                         (analysis_prompt py_repr (ds ! nat i)) = Inl e"
  then have "analyze_loop py_repr self (ds ! nat i) (nat k) [] made
     = (Inl (generate_code_except py_repr e),
        made @ replicate (Suc (length outs)) (model_name self, analysis_prompt py_repr (ds ! nat i)))"
    using analyze_loop_first_failure [of outs "nat k" self made py_repr "ds ! nat i" e "[]"]
    by blast
  then show "analyze_row py_repr self (RowIndex i) k made
              = (Inl (generate_code_except py_repr e),
                 made @ replicate (Suc (length outs))
                         (model_name self, analysis_prompt py_repr (ds ! nat i)))"
    using h assms by (auto simp: analyze_row_def)
qed

lemma echo_ai_dataset:
  "dataset echo_ai = Some [PyDict [(''x'', PyInt 1)], PyDict [(''x'', PyInt 2)]]"
  by (simp add: echo_ai_def)

lemma down_ai_dataset:
  "dataset down_ai = Some [PyDict [(''x'', PyInt 1)], PyDict [(''x'', PyInt 2)]]"
  by (simp add: down_ai_def)

theorem analyze_row_amended_witness:
  "dataset echo_ai = Some [PyDict [(''x'', PyInt 1)], PyDict [(''x'', PyInt 2)]] \<and>
   analyze_row plain_str echo_ai (RowIndex 50) 3 []
     = (Inl (ValueError ''Row index 50 is out of bounds.''), []) \<and>
   analyze_row plain_str echo_ai (RowIndex 1) 2 []
     = (Inr (join [CHR 0x0A, CHR 0x0A]
               [analysis_prompt plain_str (PyDict [(''x'', PyInt 2)]),
                analysis_prompt plain_str (PyDict [(''x'', PyInt 2)])]),
        [(''m'', analysis_prompt plain_str (PyDict [(''x'', PyInt 2)])),
         (''m'', analysis_prompt plain_str (PyDict [(''x'', PyInt 2)]))]) \<and>
   analyze_row plain_str down_ai (RowIndex 1) 2 []
     = (Inl (ValueError ''Code generation failed: connection refused''),
        [(''m'', analysis_prompt plain_str (PyDict [(''x'', PyInt 2)]))])"
proof -
  let ?ds = "[PyDict [(''x'', PyInt 1)], PyDict [(''x'', PyInt 2)]]"
  let ?prompt = "analysis_prompt plain_str (PyDict [(''x'', PyInt 2)])"
  have digits: "str_int 50 = ''50''"
    by code_simp
  have out_of_range: "analyze_row plain_str echo_ai (RowIndex 50) 3 []
     = (Inl (ValueError ''Row index 50 is out of bounds.''), [])"
    using analyze_row_amended [OF echo_ai_dataset, where i = 50 and py_repr = plain_str and k = 3
        and made = "[]"] digits by simp
  have in_range: "analyze_row plain_str echo_ai (RowIndex 1) 2 []
     = (Inr (join [CHR 0x0A, CHR 0x0A] [?prompt, ?prompt]), [(''m'', ?prompt), (''m'', ?prompt)])"
    using analyze_row_amended [OF echo_ai_dataset, where i = 1 and py_repr = plain_str and k = 2
        and made = "[]" and outs = "[?prompt, ?prompt]"]
    by (simp add: echo_ai_def echo_provider_def numeral_2_eq_2 less_Suc_eq)
  have failing: "analyze_row plain_str down_ai (RowIndex 1) 2 []
     = (Inl (ValueError ''Code generation failed: connection refused''), [(''m'', ?prompt)])"
    using analyze_row_amended [OF down_ai_dataset, where i = 1 and py_repr = plain_str and k = 2
        and made = "[]" and outs = "[]" and e = "OtherException ''connection refused''"]
    by (simp add: down_ai_def down_provider_def)
  show ?thesis
    using out_of_range in_range failing echo_ai_dataset by simp
qed


subsection \<open>Creating a project\<close>

text \<open>
  C5, as stated, fails: with a provider that answers every call and a plan of two files,
  on a disk where the output directory \<open>out\<close> is a regular file, the first write raises;
  \<open>create_project\<close> ends there, and the second entry gets neither a generation call nor
  a write.
\<close>

theorem create_project_write_failure:
  "files two_file_plan = [(''a.py'', ''desc''), (''b.py'', ''other'')] \<and>
   (\<forall>n prompt. provider (ai echo_generator) n (model_name (ai echo_generator)) prompt = Inr prompt) \<and>
   create_project plain_str echo_generator two_file_plan ''out''
       \<lparr>calls = [], writes = [], disk = blocked_fs\<rparr>
     = (Inl (FileExistsError ''out''),
        \<lparr>calls = [(''m'', file_prompt ''a.py'' ''desc'')],
         writes = [(''out/a.py'', file_prompt ''a.py'' ''desc'')],
         disk = blocked_fs\<rparr>)"
  by (simp add: create_project_def two_file_plan_def echo_generator_def echo_ai_def
      echo_provider_def generate_file_content_def generate_code_def path_join_def write_blocked)

text \<open>
  C5 (amended): \<open>create_project\<close> takes the entries in plan order; each entry it reaches
  gets exactly one generation call, with the prompt for its path and description, and, when
  that call returns, exactly one \<open>write_file\<close> call, at \<open>os.path.join(output_dir, path)\<close>
  and with the text the call returned. When the calls and writes of all entries succeed the
  run returns normally, having made these calls and writes and no others, and left the
  store as the last write did; and every run that returns normally is of this kind. When
  the entries before some entry are served and the generation call of that entry raises, or
  its write raises, the run ends with that error (the error of the call as \<open>generate_code\<close>
  wraps it): that entry has its call (and its write, if it was the write that raised) and
  the entries after it have neither. So if the generation call for some entry raises, the
  whole run fails. A one-file plan against a provider that echoes its prompt results in
  exactly one \<open>write_file\<close> call, at the joined path with the provider's text.
\<close>

theorem create_project_amended:
  "(served self output_dir entries st outs disks \<and> length outs = length entries \<longrightarrow>
      create_project py_repr self \<lparr>files = entries\<rparr> output_dir st
        = (Inr (), st\<lparr>calls := calls st @ plan_calls self entries,
                       writes := writes st @ plan_writes output_dir entries outs,
                       disk := last disks\<rparr>)) \<and>
   (served self output_dir entries st outs disks \<and> length outs < length entries \<and>
    provider (ai self) (length (calls st) + length outs) (model_name (ai self))
      (file_prompt (fst (entries ! length outs)) (snd (entries ! length outs))) = Inl e \<longrightarrow>
      create_project py_repr self \<lparr>files = entries\<rparr> output_dir st
        = (Inl (generate_code_except py_repr e),
           st\<lparr>calls := calls st @ plan_calls self (take (Suc (length outs)) entries),
               writes := writes st @ plan_writes output_dir entries outs,
               disk := last disks\<rparr>)) \<and>
   (served self output_dir entries st outs disks \<and> length outs < length entries \<and>
    provider (ai self) (length (calls st) + length outs) (model_name (ai self))
      (file_prompt (fst (entries ! length outs)) (snd (entries ! length outs))) = Inr out \<and>
    file_manager self (path_join output_dir (fst (entries ! length outs))) out (last disks)
      = (Inl e, disk') \<longrightarrow>
      create_project py_repr self \<lparr>files = entries\<rparr> output_dir st
        = (Inl e,
           st\<lparr>calls := calls st @ plan_calls self (take (Suc (length outs)) entries),
               writes := writes st @ plan_writes output_dir entries (outs @ [out]),
               disk := disk'\<rparr>)) \<and>
   (create_project py_repr self \<lparr>files = entries\<rparr> output_dir st = (Inr (), st') \<longrightarrow>
      (\<exists>outs disks. length outs = length entries \<and>
         served self output_dir entries st outs disks \<and>
         st' = st\<lparr>calls := calls st @ plan_calls self entries,
                   writes := writes st @ plan_writes output_dir entries outs,
                   disk := last disks\<rparr>)) \<and>
   (j < length entries \<and>
    provider (ai self) (length (calls st) + j) (model_name (ai self))
      (file_prompt (fst (entries ! j)) (snd (entries ! j))) = Inl e \<longrightarrow>
      isl (fst (create_project py_repr self \<lparr>files = entries\<rparr> output_dir st))) \<and>
   (provider (ai self) = echo_provider \<and> entries = [(file_path, file_description)] \<longrightarrow>
      writes (snd (create_project py_repr self \<lparr>files = entries\<rparr> output_dir st))
        = writes st @ [(path_join output_dir file_path, file_prompt file_path file_description)])"
proof (intro conjI impI)
  assume h: "served self output_dir entries st outs disks \<and> length outs = length entries"
  show "create_project py_repr self \<lparr>files = entries\<rparr> output_dir st
        = (Inr (), st\<lparr>calls := calls st @ plan_calls self entries,
                       writes := writes st @ plan_writes output_dir entries outs,
                       disk := last disks\<rparr>)"
    by (rule create_project_completes) (simp_all add: h)
next
  assume h: "served self output_dir entries st outs disks \<and> length outs < length entries \<and>
    provider (ai self) (length (calls st) + length outs) (model_name (ai self))
      (file_prompt (fst (entries ! length outs)) (snd (entries ! length outs))) = Inl e"
  show "create_project py_repr self \<lparr>files = entries\<rparr> output_dir st
        = (Inl (generate_code_except py_repr e),
           st\<lparr>calls := calls st @ plan_calls self (take (Suc (length outs)) entries),
               writes := writes st @ plan_writes output_dir entries outs,
               disk := last disks\<rparr>)"
    by (rule create_project_generation_fails) (simp_all add: h)
next
  assume h: "served self output_dir entries st outs disks \<and> length outs < length entries \<and>
    provider (ai self) (length (calls st) + length outs) (model_name (ai self))
      (file_prompt (fst (entries ! length outs)) (snd (entries ! length outs))) = Inr out \<and>
    file_manager self (path_join output_dir (fst (entries ! length outs))) out (last disks)
      = (Inl e, disk')"
  show "create_project py_repr self \<lparr>files = entries\<rparr> output_dir st
        = (Inl e,
           st\<lparr>calls := calls st @ plan_calls self (take (Suc (length outs)) entries),
               writes := writes st @ plan_writes output_dir entries (outs @ [out]),
               disk := disk'\<rparr>)"
    by (rule create_project_write_fails [where disks = disks]) (simp_all add: h)
next
  assume "create_project py_repr self \<lparr>files = entries\<rparr> output_dir st = (Inr (), st')"
  then show "\<exists>outs disks. length outs = length entries \<and>
         served self output_dir entries st outs disks \<and>
         st' = st\<lparr>calls := calls st @ plan_calls self entries,
                   writes := writes st @ plan_writes output_dir entries outs,
                   disk := last disks\<rparr>"
    using create_project_loop_success [of py_repr self output_dir entries st st']
    by (simp add: create_project_def)
next
  assume "j < length entries \<and>
    provider (ai self) (length (calls st) + j) (model_name (ai self))
      (file_prompt (fst (entries ! j)) (snd (entries ! j))) = Inl e"
  then show "isl (fst (create_project py_repr self \<lparr>files = entries\<rparr> output_dir st))"
    using create_project_loop_failure [of j entries self st e py_repr output_dir]
    by (simp add: create_project_def)
next
  assume "provider (ai self) = echo_provider \<and> entries = [(file_path, file_description)]"
  then show "writes (snd (create_project py_repr self \<lparr>files = entries\<rparr> output_dir st))
        = writes st @ [(path_join output_dir file_path, file_prompt file_path file_description)]"
    by (auto simp: create_project_def generate_file_content_def generate_code_def
        echo_provider_def Let_def split: prod.splits sum.splits)
qed

theorem create_project_amended_witness:
  "served echo_generator ''/out'' [(''a.py'', ''desc''), (''b.py'', ''other'')] initial_state
     [file_prompt ''a.py'' ''desc'', file_prompt ''b.py'' ''other''] [empty_fs, fs_a, fs_ab] \<and>
   create_project plain_str echo_generator two_file_plan ''/out'' initial_state
     = (Inr (), \<lparr>calls = [(''m'', file_prompt ''a.py'' ''desc''), (''m'', file_prompt ''b.py'' ''other'')],
                 writes = [(''/out/a.py'', file_prompt ''a.py'' ''desc''),
                           (''/out/b.py'', file_prompt ''b.py'' ''other'')],
                 disk = fs_ab\<rparr>) \<and>
   open_read ''/out/b.py'' fs_ab = Inr (file_prompt ''b.py'' ''other'') \<and>
   (\<exists>outs disks. length outs = 2 \<and>
      served echo_generator ''/out'' [(''a.py'', ''desc''), (''b.py'', ''other'')] initial_state
        outs disks \<and> last disks = fs_ab) \<and>
   create_project plain_str down_generator two_file_plan ''/out'' initial_state
     = (Inl (ValueError ''Code generation failed: connection refused''),
        \<lparr>calls = [(''m'', file_prompt ''a.py'' ''desc'')], writes = [], disk = empty_fs\<rparr>) \<and>
   create_project plain_str echo_generator one_file_plan ''out''
       \<lparr>calls = [], writes = [], disk = blocked_fs\<rparr>
     = (Inl (FileExistsError ''out''),
        \<lparr>calls = [(''m'', file_prompt ''a.py'' ''desc'')],
         writes = [(''out/a.py'', file_prompt ''a.py'' ''desc'')],
         disk = blocked_fs\<rparr>) \<and>
   isl (fst (create_project plain_str down_generator two_file_plan ''/out'' initial_state)) \<and>
   writes (snd (create_project plain_str echo_generator one_file_plan ''/out'' initial_state))
     = [(''/out/a.py'', file_prompt ''a.py'' ''desc'')]"
proof -
  let ?entries = "[(''a.py'', ''desc''), (''b.py'', ''other'')]"
  let ?outs = "[file_prompt ''a.py'' ''desc'', file_prompt ''b.py'' ''other'']"
  have two: "two_file_plan = \<lparr>files = ?entries\<rparr>" and one: "one_file_plan = \<lparr>files = [(''a.py'', ''desc'')]\<rparr>"
    by (simp_all add: two_file_plan_def one_file_plan_def)
  have completed: "create_project plain_str echo_generator \<lparr>files = ?entries\<rparr> ''/out'' initial_state
     = (Inr (), \<lparr>calls = [(''m'', file_prompt ''a.py'' ''desc''), (''m'', file_prompt ''b.py'' ''other'')],
                 writes = [(''/out/a.py'', file_prompt ''a.py'' ''desc''),
                           (''/out/b.py'', file_prompt ''b.py'' ''other'')],
                 disk = fs_ab\<rparr>)"
    using create_project_amended [where self = echo_generator and output_dir = "''/out''"
        and entries = ?entries and st = initial_state and outs = ?outs
        and disks = "[empty_fs, fs_a, fs_ab]" and py_repr = plain_str] served_two_files
    by (simp add: plan_calls_def plan_writes_def initial_state_def echo_generator_def echo_ai_def
        path_join_def)
  have conv: "\<exists>outs disks. length outs = 2 \<and>
      served echo_generator ''/out'' ?entries initial_state outs disks \<and> last disks = fs_ab"
  proof -
    from create_project_amended [where self = echo_generator and output_dir = "''/out''"
        and entries = ?entries and st = initial_state and py_repr = plain_str
        and st' = "\<lparr>calls = [(''m'', file_prompt ''a.py'' ''desc''), (''m'', file_prompt ''b.py'' ''other'')],
                 writes = [(''/out/a.py'', file_prompt ''a.py'' ''desc''),
                           (''/out/b.py'', file_prompt ''b.py'' ''other'')],
                 disk = fs_ab\<rparr>"] completed
    obtain outs disks where "length outs = length ?entries"
      and "served echo_generator ''/out'' ?entries initial_state outs disks"
      and "\<lparr>calls = [(''m'', file_prompt ''a.py'' ''desc''), (''m'', file_prompt ''b.py'' ''other'')],
                 writes = [(''/out/a.py'', file_prompt ''a.py'' ''desc''),
                           (''/out/b.py'', file_prompt ''b.py'' ''other'')],
                 disk = fs_ab\<rparr>
            = initial_state\<lparr>calls := calls initial_state @ plan_calls echo_generator ?entries,
                   writes := writes initial_state @ plan_writes ''/out'' ?entries outs,
                   disk := last disks\<rparr>"
      by blast
    then have "length outs = 2 \<and> served echo_generator ''/out'' ?entries initial_state outs disks
        \<and> last disks = fs_ab"
      by (simp add: initial_state_def)
    then show ?thesis by blast
  qed
  have down: "create_project plain_str down_generator \<lparr>files = ?entries\<rparr> ''/out'' initial_state
     = (Inl (ValueError ''Code generation failed: connection refused''),
        \<lparr>calls = [(''m'', file_prompt ''a.py'' ''desc'')], writes = [], disk = empty_fs\<rparr>)"
    using create_project_amended [where self = down_generator and output_dir = "''/out''"
        and entries = ?entries and st = initial_state and outs = "[]"
        and disks = "[empty_fs]" and py_repr = plain_str
        and e = "OtherException ''connection refused''"]
      served_nothing [of down_generator "''/out''" ?entries initial_state]
    by (simp add: plan_calls_def plan_writes_def initial_state_def down_generator_def down_ai_def
        down_provider_def)
  have blocked: "create_project plain_str echo_generator \<lparr>files = [(''a.py'', ''desc'')]\<rparr> ''out''
       \<lparr>calls = [], writes = [], disk = blocked_fs\<rparr>
     = (Inl (FileExistsError ''out''),
        \<lparr>calls = [(''m'', file_prompt ''a.py'' ''desc'')],
         writes = [(''out/a.py'', file_prompt ''a.py'' ''desc'')],
         disk = blocked_fs\<rparr>)"
    using create_project_amended [where self = echo_generator and output_dir = "''out''"
        and entries = "[(''a.py'', ''desc'')]" and st = "\<lparr>calls = [], writes = [], disk = blocked_fs\<rparr>"
        and outs = "[]" and disks = "[blocked_fs]" and py_repr = plain_str
        and out = "file_prompt ''a.py'' ''desc''" and e = "FileExistsError ''out''"
        and disk' = blocked_fs]
      served_nothing [of echo_generator "''out''" "[(''a.py'', ''desc'')]"
        "\<lparr>calls = [], writes = [], disk = blocked_fs\<rparr>"]
      write_blocked [of "file_prompt ''a.py'' ''desc''"]
    by (simp add: plan_calls_def plan_writes_def echo_generator_def echo_ai_def
        echo_provider_def path_join_def)
  have failing: "isl (fst (create_project plain_str down_generator \<lparr>files = ?entries\<rparr> ''/out''
                            initial_state))"
    using create_project_amended [where self = down_generator and output_dir = "''/out''"
        and entries = ?entries and st = initial_state and py_repr = plain_str
        and j = 0 and e = "OtherException ''connection refused''"]
    by (simp add: down_generator_def down_ai_def down_provider_def)
  have echoed: "writes (snd (create_project plain_str echo_generator \<lparr>files = [(''a.py'', ''desc'')]\<rparr>
                               ''/out'' initial_state))
     = [(''/out/a.py'', file_prompt ''a.py'' ''desc'')]"
    using create_project_amended [where self = echo_generator and output_dir = "''/out''"
        and entries = "[(''a.py'', ''desc'')]" and st = initial_state and py_repr = plain_str
        and file_path = "''a.py''" and file_description = "''desc''"]
    by (simp add: echo_generator_def echo_ai_def initial_state_def path_join_def)
  show ?thesis
    using served_two_files completed read_b conv down blocked failing echoed
    by (simp add: two one)
qed

subsection \<open>Writing a file\<close>




end
